theory Spec2Isabelle
  imports Main
begin

section \<open>Messages between the REST layer and the workers\<close>

text \<open>
  The message package (\<^verbatim>\<open>internal/eye.msg\<close>) and the wire protocol package
  (\<^verbatim>\<open>lib/eye.proto/v2\<close>) are used by the two source files but are not part of
  them. Their types are declared here with the fields the source files read and write.
  A Go slice is a list (a nil slice and an empty slice are both \<open>[]\<close>), a pointer to a
  slice is an \<open>option\<close> (\<open>None\<close> is the nil pointer), and a Go \<^verbatim>\<open>error\<close> is the
  text its \<^verbatim>\<open>Error()\<close> method returns (\<open>None\<close> is the nil error).
\<close>

type_synonym json = string

datatype section_t =
    SectionConfiguration
  | SectionDeployment
  | SectionLookup
  | SectionRegistration
  | SectionOther string

datatype action_t =
    ActionAdd
  | ActionRemove
  | ActionUpdate
  | ActionActivate
  | ActionNop
  | ActionList
  | ActionOther string

datatype version_t =
    ProtocolInvalid
  | ProtocolOne
  | ProtocolTwo
  | ProtocolOther

record v2_MetaInformation =
  ValidFrom :: string
  ValidUntil :: string
  ProvisionedAt :: string
  DeprovisionedAt :: string
  Tasks :: "string list"

record v2_Data =
  Data_ID :: string
  Info :: v2_MetaInformation
  Payload :: string

record v2_Configuration =
  ID :: string
  LookupID :: string
  HostID :: nat
  Metric :: string
  ActivatedAt :: string
  Data :: "v2_Data list"

datatype v2_Registration = Registration string

record msg_Flags =
  SendDeploymentFeedback :: bool
  CacheInvalidation :: bool
  AlarmClearing :: bool
  ResetActivation :: bool

record msg_Result =
  Version :: version_t
  Section :: section_t
  Action :: action_t
  Code :: nat
  Error :: "string option"
  Configuration :: "v2_Configuration list"
  Registration :: "v2_Registration list"
  Flags :: msg_Flags
  FeedbackURL :: string

text \<open>The external protocol result \<^verbatim>\<open>v2.Result\<close>: its three lists are pointers to slices.\<close>

record v2_Result =
  StatusCode :: nat
  proto_Section :: section_t
  proto_Action :: action_t
  Errors :: "string list option"
  Configurations :: "v2_Configuration list option"
  Registrations :: "v2_Registration list option"

text \<open>
  Modelled from the spec: the constant \<^verbatim>\<open>msg.ResultOK\<close> of the message package, whose
  source file is not part of this development. The status codes are aligned with
  HTTP (section 6), so a success is 200.
\<close>

definition ResultOK :: nat where
  "ResultOK = 200"

text \<open>
  Modelled from the spec: the constant \<^verbatim>\<open>msg.ResultBadRequest\<close> of the message
  package, whose source file is not part of this development. Section 7 maps a bad
  request to HTTP 400.
\<close>

definition ResultBadRequest :: nat where
  "ResultBadRequest = 400"

text \<open>
  Modelled from the spec: the constant \<^verbatim>\<open>msg.ResultServerError\<close> of the message
  package, whose source file is not part of this development. Section 7 maps a
  server error to HTTP 500.
\<close>

definition ResultServerError :: nat where
  "ResultServerError = 500"

text \<open>The constants of \<^verbatim>\<open>net/http\<close> the renderer passes on.\<close>

definition StatusNoContent :: nat where
  "StatusNoContent = 204"

definition StatusBadRequest :: nat where
  "StatusBadRequest = 400"

definition StatusInternalServerError :: nat where
  "StatusInternalServerError = 500"

section \<open>Faults and sequencing\<close>

text \<open>
  A Go panic ends the function where it is raised. \<open>Panic\<close> is an explicit
  \<^verbatim>\<open>panic(...)\<close> statement with its message, the other two are the runtime panics
  of dereferencing a nil pointer and of indexing a slice out of range.
\<close>

datatype fault =
    Panic string
  | NilPointerDereference
  | IndexOutOfRange

definition and_then :: "'e + 'a \<Rightarrow> ('a \<Rightarrow> 'e + 'b) \<Rightarrow> 'e + 'b" where
  "and_then m f = (case m of Inl e \<Rightarrow> Inl e | Inr x \<Rightarrow> f x)"

section \<open>The result renderer (\<^verbatim>\<open>internal/eye.rest/util__respond.go\<close>)\<close>

text \<open>
  What the renderer does to the outside world, in program order: calls on the
  \<^verbatim>\<open>http.ResponseWriter\<close>, calls of the reply helpers of the package
  (\<^verbatim>\<open>sendV1Result\<close>, \<^verbatim>\<open>sendJSONReply\<close>, \<^verbatim>\<open>hardInternalError\<close>), and the goroutines it
  starts (\<^verbatim>\<open>go sendSomaFeedback(url, feedback)\<close>, \<^verbatim>\<open>go clearCamsAlarm(r)\<close>).
\<close>

datatype event =
    HttpError string nat
  | WriteHeader nat
  | Write string
  | SendV1Result nat string json
  | SendJSONReply json
  | HardInternalError
  | GoSendSomaFeedback string string
  | GoClearCamsAlarm msg_Result

text \<open>
  The functions of other packages the renderer calls are parameters of the model:
  the two constructors of \<^verbatim>\<open>v2.Result\<close>, \<^verbatim>\<open>json.Marshal\<close> on the protocol result and
  on the version 1 list (\<open>Inl\<close> is its error), and \<^verbatim>\<open>ExportV1ConfigurationList\<close>.
\<close>

record 'l rest_lib =
  NewConfigurationResult :: v2_Result
  NewRegistrationResult :: v2_Result
  MarshalResult :: "v2_Result \<Rightarrow> string + json"
  ExportV1ConfigurationList :: "msg_Result \<Rightarrow> nat \<times> string \<times> 'l"
  MarshalV1List :: "'l \<Rightarrow> string + json"

text \<open>
  The renderer returns what it emitted, the protocol result it built, and the internal
  result \<^verbatim>\<open>r\<close>, which it receives by pointer and whose flags it overwrites.
\<close>

record rendering =
  events :: "event list"
  protoRes :: "v2_Result option"
  r_after :: msg_Result

text \<open>The zero value of \<^verbatim>\<open>v2.Result\<close>: every pointer is nil.\<close>

definition zero_v2_Result :: "section_t \<Rightarrow> action_t \<Rightarrow> v2_Result" where
  "zero_v2_Result s a =
     \<lparr>StatusCode = 0, proto_Section = s, proto_Action = a,
      Errors = None, Configurations = None, Registrations = None\<rparr>"

text \<open>
  Modelled from the spec: the method \<^verbatim>\<open>v2.Result.SetStatus\<close> of the protocol package,
  whose source file is not part of this development. It records the status code of
  the internal result as the status of the protocol result (section 6).
\<close>

definition SetStatus :: "nat \<Rightarrow> v2_Result \<Rightarrow> v2_Result" where
  "SetStatus c p = p\<lparr>StatusCode := c\<rparr>"

text \<open>\<^verbatim>\<open>*p = append(*p, xs...)\<close> on a pointer to a slice.\<close>

definition append_deref :: "'a list option \<Rightarrow> 'a list \<Rightarrow> fault + 'a list option" where
  "append_deref p xs =
     (case p of None \<Rightarrow> Inl NilPointerDereference | Some ys \<Rightarrow> Inr (Some (ys @ xs)))"

text \<open>\<^verbatim>\<open>*p = nil\<close> on a pointer to a slice.\<close>

definition clear_deref :: "'a list option \<Rightarrow> fault + 'a list option" where
  "clear_deref p =
     (case p of None \<Rightarrow> Inl NilPointerDereference | Some ys \<Rightarrow> Inr (Some []))"

text \<open>\<^verbatim>\<open>if p != nil && len(*p) == 0 { *p = nil }\<close>.\<close>

definition omitempty :: "'a list option \<Rightarrow> 'a list option" where
  "omitempty p = (if p \<noteq> None \<and> length (the p) = 0 then Some [] else p)"

definition respondV2 :: "'l rest_lib \<Rightarrow> msg_Result \<Rightarrow> fault + rendering" where
  "respondV2 L r =
    (let p0 = (case Section r of
                 SectionConfiguration \<Rightarrow> NewConfigurationResult L
               | SectionDeployment \<Rightarrow> NewConfigurationResult L
               | SectionLookup \<Rightarrow> NewConfigurationResult L
               | SectionRegistration \<Rightarrow> NewRegistrationResult L
               | SectionOther s \<Rightarrow> zero_v2_Result (Section r) (Action r));
         feedback0 = ''success'';
         p1 = p0\<lparr>proto_Section := Section r, proto_Action := Action r\<rparr>
     in
     and_then
       (case Error r of
          None \<Rightarrow> Inr (p1, feedback0)
        | Some e \<Rightarrow>
            and_then (append_deref (Errors p1) [e])
              (\<lambda>es. Inr (p1\<lparr>Errors := es\<rparr>, ''failed'')))
     (\<lambda>(p2, feedback1).
     and_then
       (case Section r of
          SectionConfiguration \<Rightarrow>
            and_then (append_deref (Configurations p2) (Configuration r))
              (\<lambda>cs. Inr (p2\<lparr>Configurations := cs\<rparr>))
        | SectionDeployment \<Rightarrow>
            and_then (append_deref (Configurations p2) (Configuration r))
              (\<lambda>cs. Inr (p2\<lparr>Configurations := cs\<rparr>))
        | SectionLookup \<Rightarrow>
            and_then (append_deref (Configurations p2) (Configuration r))
              (\<lambda>cs. Inr (p2\<lparr>Configurations := cs\<rparr>))
        | SectionRegistration \<Rightarrow>
            and_then (append_deref (Registrations p2) (Registration r))
              (\<lambda>rs. Inr (p2\<lparr>Registrations := rs\<rparr>))
        | SectionOther s \<Rightarrow> Inr p2)
     (\<lambda>p3.
     let p4 = p3\<lparr>Configurations := omitempty (Configurations p3)\<rparr>;
         p5 = p4\<lparr>Registrations := omitempty (Registrations p4)\<rparr>;
         p6 = SetStatus (Code r) p5
     in
     and_then
       (if Code r \<ge> 400 then
          and_then (clear_deref (Configurations p6)) (\<lambda>cs.
          and_then (clear_deref (Registrations p6)) (\<lambda>rs.
            Inr (p6\<lparr>Configurations := cs, Registrations := rs\<rparr>,
                 r\<lparr>Flags := (Flags r)\<lparr>CacheInvalidation := False, AlarmClearing := False\<rparr>\<rparr>,
                 ''failed'')))
        else Inr (p6, r, feedback1))
     (\<lambda>(p7, r1, feedback2).
     let ev1 = (if SendDeploymentFeedback (Flags r1)
                then [GoSendSomaFeedback (FeedbackURL r1) feedback2] else []);
         ev2 = (if AlarmClearing (Flags r1) then [GoClearCamsAlarm r1] else [])
     in
     case MarshalResult L p7 of
       Inl err \<Rightarrow>
         Inr \<lparr>events = ev1 @ ev2 @ [HardInternalError], protoRes = Some p7, r_after = r1\<rparr>
     | Inr bjson \<Rightarrow>
         Inr \<lparr>events = ev1 @ ev2 @ [SendJSONReply bjson], protoRes = Some p7, r_after = r1\<rparr>))))"

definition respondV1 :: "'l rest_lib \<Rightarrow> msg_Result \<Rightarrow> fault + rendering" where
  "respondV1 L r =
    (if Section r = SectionRegistration
     then Inl (Panic ''API Protocol 1 does not have registrations'')
     else if Section r = SectionConfiguration then
       (if Action r = ActionList then
          (case ExportV1ConfigurationList L r of (code, errstr, list) \<Rightarrow>
             (case MarshalV1List L list of
                Inl err \<Rightarrow> Inr \<lparr>events = [HardInternalError], protoRes = None, r_after = r\<rparr>
              | Inr bjson \<Rightarrow>
                  Inr \<lparr>events = [SendV1Result code errstr bjson], protoRes = None, r_after = r\<rparr>))
        else if Action r = ActionRemove then
          (if Error r \<noteq> None \<and> Code r \<ge> ResultServerError then
             Inr \<lparr>events = [HttpError (the (Error r)) StatusInternalServerError],
                  protoRes = None, r_after = r\<rparr>
           else if Error r \<noteq> None \<and> Code r \<ge> ResultBadRequest then
             Inr \<lparr>events = [HttpError (the (Error r)) StatusBadRequest],
                  protoRes = None, r_after = r\<rparr>
           else
             Inr \<lparr>events = [WriteHeader StatusNoContent, Write []],
                  protoRes = None, r_after = r\<rparr>)
        else Inr \<lparr>events = [], protoRes = None, r_after = r\<rparr>)
     else Inr \<lparr>events = [], protoRes = None, r_after = r\<rparr>)"

definition respond :: "'l rest_lib \<Rightarrow> msg_Result \<Rightarrow> fault + rendering" where
  "respond L r =
    (case Version r of
       ProtocolInvalid \<Rightarrow> Inl (Panic ''API Protocol 0 is not valid'')
     | ProtocolOne \<Rightarrow> respondV1 L r
     | ProtocolTwo \<Rightarrow> respondV2 L r
     | ProtocolOther \<Rightarrow> Inr \<lparr>events = [], protoRes = None, r_after = r\<rparr>)"

section \<open>The write worker (\<^verbatim>\<open>internal/eye\<close>, configuration write handler)\<close>

subsection \<open>Requests, time and the database\<close>

record msg_Request =
  q_Version :: version_t
  q_Section :: section_t
  q_Action :: action_t
  q_Flags :: msg_Flags
  q_Configuration :: v2_Configuration
  LookupHash :: string
  ConfigurationTask :: string

text \<open>
  Modelled from the spec: the constant \<^verbatim>\<open>msg.TaskRollout\<close> of the message package,
  whose source file is not part of this development. Section 3 names the four tasks
  \<^verbatim>\<open>rollout\<close>, \<^verbatim>\<open>deprovision\<close>, \<^verbatim>\<open>delete\<close> and \<^verbatim>\<open>clearing\<close>.
\<close>

definition TaskRollout :: string where
  "TaskRollout = ''rollout''"

text \<open>
  Modelled from the spec: the constant \<^verbatim>\<open>msg.TaskDeprovision\<close> of the message
  package, whose source file is not part of this development (section 3).
\<close>

definition TaskDeprovision :: string where
  "TaskDeprovision = ''deprovision''"

text \<open>
  Modelled from the spec: the constant \<^verbatim>\<open>msg.TaskDelete\<close> of the message package,
  whose source file is not part of this development (section 3).
\<close>

definition TaskDelete :: string where
  "TaskDelete = ''delete''"

text \<open>
  Modelled from the spec: the constant \<^verbatim>\<open>msg.TaskClearing\<close> of the message package,
  whose source file is not part of this development (section 3).
\<close>

definition TaskClearing :: string where
  "TaskClearing = ''clearing''"

text \<open>
  A \<^verbatim>\<open>time.Time\<close> is an instant, its number of nanoseconds since the epoch, together
  with the location it is displayed in, of which \<^verbatim>\<open>Format\<close> uses the offset from UTC
  in seconds. \<^verbatim>\<open>Before\<close> and \<^verbatim>\<open>Equal\<close> compare the instants only, \<^verbatim>\<open>UTC\<close> moves the
  time to the location UTC, \<^verbatim>\<open>Add\<close> moves the instant (the source adds to UTC times
  only, whose offset does not change), and \<^verbatim>\<open>time.Minute\<close> is \<open>60 * 10^9\<close>.
\<close>

record Time =
  nanos :: int
  zone_offset :: int

definition Minute :: int where
  "Minute = 60 * 1000000000"

definition UTC :: "Time \<Rightarrow> Time" where
  "UTC t = t\<lparr>zone_offset := 0\<rparr>"

definition Add :: "Time \<Rightarrow> int \<Rightarrow> Time" where
  "Add t d = t\<lparr>nanos := nanos t + d\<rparr>"

definition Before :: "Time \<Rightarrow> Time \<Rightarrow> bool" where
  "Before t u \<longleftrightarrow> nanos t < nanos u"

definition Equal :: "Time \<Rightarrow> Time \<Rightarrow> bool" where
  "Equal t u \<longleftrightarrow> nanos t = nanos u"

text \<open>
  The time functions of the protocol package (\<^verbatim>\<open>v2.ParseValidity\<close>,
  \<^verbatim>\<open>v2.FormatValidity\<close>, \<^verbatim>\<open>v2.ParseProvision\<close>, \<^verbatim>\<open>v2.FormatProvision\<close>), the constant
  \<^verbatim>\<open>msg.PosTimeInf\<close> and the layout \<^verbatim>\<open>RFC3339Milli\<close> belong to source files that
  are not part of this development: they are parameters of the model, and every
  theorem below holds for all of their instances.
\<close>

record timelib =
  PosTimeInf :: Time
  ParseValidity :: "string \<Rightarrow> Time"
  FormatValidity :: "Time \<Rightarrow> string"
  ParseProvision :: "string \<Rightarrow> Time"
  FormatProvision :: "Time \<Rightarrow> string"
  FormatRFC3339Milli :: "Time \<Rightarrow> string"

text \<open>
  A \<^verbatim>\<open>sql.Result\<close> is what its \<^verbatim>\<open>RowsAffected()\<close> returns: the count and the error.
  A \<^verbatim>\<open>QueryRow(...).Scan(...)\<close> either finds no row, fails, or fills its targets.
\<close>

type_synonym sql_Result = "int \<times> string option"

datatype 'a query =
    ErrNoRows
  | QueryErr string
  | Row 'a

text \<open>
  The world of one request: the clock (\<^verbatim>\<open>time.Now()\<close>, in the local location), the
  times the database returns (in the location the driver gives them), the UUID
  generator (\<^verbatim>\<open>uuid.NewV4\<close>, \<open>Inl\<close> is
  its error), \<^verbatim>\<open>json.Marshal\<close> on the configuration, \<^verbatim>\<open>msg.FromRequest\<close>, and the
  answer of the database to each statement. Every statement runs at most once per
  request, so one answer per statement describes the database. The answer to
  \<^verbatim>\<open>txCfgLoadActive\<close>, a method of the worker defined in another source file, is
  the error it returns or the configuration it loads.
\<close>

record world =
  now :: Time
  NewV4 :: "string + string"
  MarshalConfiguration :: "v2_Configuration \<Rightarrow> string + json"
  FromRequest :: "msg_Request \<Rightarrow> msg_Result"
  db_Begin :: "string option"
  db_Commit :: "string option"
  db_NewLookupAdd :: "string + sql_Result"
  db_CfgAddID :: "string + sql_Result"
  db_CfgSelectValidForUpdate :: "(string \<times> Time) query"
  db_CfgDataUpdateValidity :: "string + sql_Result"
  db_CfgAddData :: "string + sql_Result"
  db_ProvAdd :: "string + sql_Result"
  db_ActivationGet :: "Time query"
  db_CfgLoadActive :: "v2_Configuration query"
  db_SetDataValidity :: "string + sql_Result"
  db_ProvFinalize :: "string + sql_Result"
  db_ActivationDel :: "string + sql_Result"
  db_ConfigurationUpdate :: "string + sql_Result"
  db_ActivationSet :: "string + sql_Result"

text \<open>The calls the worker makes on the database, with their arguments, in program order.\<close>

datatype db_call =
    Begin
  | Commit
  | Rollback
  | NewLookupAdd string int string
  | CfgAddID string string
  | CfgSelectValidForUpdate string
  | CfgDataUpdateValidity string string string
  | CfgAddData string string string json
  | ProvAdd string string string "string list"
  | ActivationGet string
  | TxCfgLoadActive msg_Request
  | TxSetDataValidity Time Time string
  | ProvFinalize string string string
  | ActivationDel string
  | ConfigurationUpdate string string json
  | ActivationSet string

text \<open>A handler returns the result it filled in (\<^verbatim>\<open>mr\<close>) and the calls it made.\<close>

record handled =
  mr_out :: msg_Result
  calls :: "db_call list"

subsection \<open>Methods of the result envelope\<close>

text \<open>
  The methods of \<^verbatim>\<open>msg.Result\<close> belong to the message package, whose source file is
  not part of this development. The specification gives their status codes and not
  their message texts.
\<close>

text \<open>
  Modelled from the spec: the method \<^verbatim>\<open>msg.Result.OK\<close>, missing with the message
  package. It marks the result as a success (sections 4.3 and 7).
\<close>

definition OK :: "msg_Result \<Rightarrow> msg_Result" where
  "OK r = r\<lparr>Code := ResultOK\<rparr>"

text \<open>
  Modelled from the spec: the method \<^verbatim>\<open>msg.Result.ServerError\<close>, missing with the
  message package. Section 7: a database or marshalling failure is a server error,
  status 500, and the error is attached to the \<^verbatim>\<open>Error\<close> field of the result.
\<close>

definition ServerError :: "string \<Rightarrow> msg_Result \<Rightarrow> msg_Result" where
  "ServerError err r = r\<lparr>Code := ResultServerError, Error := Some err\<rparr>"

text \<open>
  Modelled from the spec: the method \<^verbatim>\<open>msg.Result.UnknownRequest\<close>, missing with the
  message package. Section 7: an action that is not in the supported set is an
  unknown request, status 400.
\<close>

definition UnknownRequest :: "msg_Request \<Rightarrow> msg_Result \<Rightarrow> msg_Result" where
  "UnknownRequest q r = r\<lparr>Code := ResultBadRequest, Error := Some ''unknown request''\<rparr>"

text \<open>
  Modelled from the spec: the invariant-violation result that \<^verbatim>\<open>ExpectedRows\<close> and
  \<^verbatim>\<open>RowCnt\<close> leave behind, missing with the message package. Section 7: a row-count
  mismatch is an invariant violation, status 500.
\<close>

definition InvariantViolation :: "msg_Result \<Rightarrow> msg_Result" where
  "InvariantViolation r =
     r\<lparr>Code := ResultServerError, Error := Some ''unexpected number of affected rows''\<rparr>"

text \<open>
  Modelled from the spec: the method \<^verbatim>\<open>msg.Result.ExpectedRows\<close>, missing with the
  message package. Section 4.2: the rows-affected count of a statement is checked
  against an expected set, and any deviation is an invariant violation. It returns
  whether the count is expected and records a deviation in the result.
\<close>

definition ExpectedRows :: "msg_Result \<Rightarrow> sql_Result \<Rightarrow> int list \<Rightarrow> bool \<times> msg_Result" where
  "ExpectedRows r res expected =
     (case snd res of
        Some err \<Rightarrow> (False, ServerError err r)
      | None \<Rightarrow>
          if fst res \<in> set expected then (True, r) else (False, InvariantViolation r))"

text \<open>
  Modelled from the spec: the method \<^verbatim>\<open>msg.Result.RowCnt\<close>, missing with the message
  package. Sections 4.2 and 4.3.4: \<^verbatim>\<open>setActivation\<close> may affect 0 rows (already
  active, OK with no payload) or 1 row (newly activated, OK, and the caller appends
  the configuration); it returns whether exactly 1 row was affected.
\<close>

definition RowCnt :: "msg_Result \<Rightarrow> sql_Result \<Rightarrow> bool \<times> msg_Result" where
  "RowCnt r res =
     (case snd res of
        Some err \<Rightarrow> (False, ServerError err r)
      | None \<Rightarrow>
          if fst res = 0 then (False, OK r)
          else if fst res = 1 then (True, OK r)
          else (False, InvariantViolation r))"

subsection \<open>Formatting helpers\<close>

text \<open>The verb \<^verbatim>\<open>%d\<close> of \<^verbatim>\<open>fmt.Errorf\<close> on an \<^verbatim>\<open>int64\<close>: decimal digits, with a sign.\<close>

definition digit :: "nat \<Rightarrow> char" where
  "digit n = ''0123456789'' ! (n mod 10)"

fun show_nat :: "nat \<Rightarrow> string" where
  "show_nat n = (if n < 10 then [digit n] else show_nat (n div 10) @ [digit n])"

declare show_nat.simps [simp del]

definition show_int :: "int \<Rightarrow> string" where
  "show_int i = (if i < 0 then CHR ''-'' # show_nat (nat (- i)) else show_nat (nat i))"

text \<open>The conversion \<^verbatim>\<open>int(q.Configuration.HostID)\<close> of a \<^verbatim>\<open>uint64\<close> to a 64-bit \<^verbatim>\<open>int\<close>.\<close>

definition int_of_uint64 :: "nat \<Rightarrow> int" where
  "int_of_uint64 n = (if n mod 2 ^ 64 < 2 ^ 63 then int (n mod 2 ^ 64) else int (n mod 2 ^ 64) - 2 ^ 64)"

text \<open>The zero value of \<^verbatim>\<open>v2.MetaInformation\<close>.\<close>

definition zero_MetaInformation :: v2_MetaInformation where
  "zero_MetaInformation =
     \<lparr>ValidFrom = [], ValidUntil = [], ProvisionedAt = [], DeprovisionedAt = [], Tasks = []\<rparr>"

subsection \<open>The handlers\<close>

text \<open>
  Modelled from the spec: the method \<^verbatim>\<open>txSetDataValidity\<close> of the worker, whose
  source file is not part of this development. Section 4.2, \<^verbatim>\<open>closeValidity\<close>: the
  statement sets the validity of the data row and must affect exactly 1 row. It
  returns \<^verbatim>\<open>(ok, err)\<close> and records a row-count deviation in the result it is given.
\<close>

definition txSetDataValidity :: "world \<Rightarrow> msg_Result \<Rightarrow> bool \<times> string option \<times> msg_Result" where
  "txSetDataValidity W r =
     (case db_SetDataValidity W of
        Inl err \<Rightarrow> (False, Some err, r)
      | Inr res \<Rightarrow> (fst (ExpectedRows r res [1]), None, snd (ExpectedRows r res [1])))"

text \<open>
  \<^verbatim>\<open>add\<close> inserts a configuration profile into the database. The request is received
  by pointer; the configuration the handler builds in it is the one it appends to
  the result.
\<close>

definition add :: "world \<Rightarrow> timelib \<Rightarrow> msg_Request \<Rightarrow> msg_Result
    \<Rightarrow> (fault \<times> db_call list) + handled" where
  "add W L q mr =
    (let rolloutTS = UTC (now W) in
     case NewV4 W of
       Inl e \<Rightarrow> Inl (Panic e, [])
     | Inr dataID \<Rightarrow>
     (let c1 = (q_Configuration q)\<lparr>LookupID := LookupHash q, ActivatedAt := ''unknown''\<rparr> in
      case Data c1 of
        [] \<Rightarrow> Inl (IndexOutOfRange, [])
      | d0 # ds \<Rightarrow>
      (let data = d0\<lparr>Data_ID := dataID, Info := zero_MetaInformation\<rparr>;
           c2 = c1\<lparr>Data := [data]\<rparr> in
       case MarshalConfiguration W c2 of
         Inl err \<Rightarrow> Inr \<lparr>mr_out = ServerError err mr, calls = []\<rparr>
       | Inr jsonb \<Rightarrow>
       (case db_Begin W of
          Some err \<Rightarrow> Inr \<lparr>mr_out = ServerError err mr, calls = [Begin]\<rparr>
        | None \<Rightarrow>
        (let k1 = [Begin, NewLookupAdd (LookupHash q) (int_of_uint64 (HostID c2)) (Metric c2)] in
         case db_NewLookupAdd W of
           Inl err \<Rightarrow> Inr \<lparr>mr_out = ServerError err mr, calls = k1 @ [Rollback]\<rparr>
         | Inr res1 \<Rightarrow>
         if \<not> fst (ExpectedRows mr res1 [0, 1])
         then Inr \<lparr>mr_out = snd (ExpectedRows mr res1 [0, 1]), calls = k1 @ [Rollback]\<rparr>
         else
         (let mr1 = snd (ExpectedRows mr res1 [0, 1]);
              k2 = k1 @ [CfgAddID (ID c2) (LookupHash q)] in
          case db_CfgAddID W of
            Inl err \<Rightarrow> Inr \<lparr>mr_out = ServerError err mr1, calls = k2 @ [Rollback]\<rparr>
          | Inr res2 \<Rightarrow>
          if \<not> fst (ExpectedRows mr1 res2 [0, 1])
          then Inr \<lparr>mr_out = snd (ExpectedRows mr1 res2 [0, 1]), calls = k2 @ [Rollback]\<rparr>
          else
          (let mr2 = snd (ExpectedRows mr1 res2 [0, 1]);
               k3 = k2 @ [CfgSelectValidForUpdate (ID c2)] in
           case
             (case db_CfgSelectValidForUpdate W of
                ErrNoRows \<Rightarrow> Inr (mr2, res2, k3)
              | QueryErr err \<Rightarrow> Inl \<lparr>mr_out = ServerError err mr2, calls = k3 @ [Rollback]\<rparr>
              | Row (previousDataID, validFrom) \<Rightarrow>
                  (let k4 = k3 @ [CfgDataUpdateValidity (FormatRFC3339Milli L validFrom)
                                    (FormatRFC3339Milli L rolloutTS) previousDataID] in
                   case db_CfgDataUpdateValidity W of
                     Inl err \<Rightarrow> Inl \<lparr>mr_out = ServerError err mr2, calls = k4 @ [Rollback]\<rparr>
                   | Inr res3 \<Rightarrow>
                       if \<not> fst (ExpectedRows mr2 res3 [1])
                       then Inl \<lparr>mr_out = snd (ExpectedRows mr2 res3 [1]), calls = k4 @ [Rollback]\<rparr>
                       else Inr (snd (ExpectedRows mr2 res3 [1]), res3, k4)))
           of
             Inl early \<Rightarrow> Inr early
           | Inr (mr3, res3, k4) \<Rightarrow>
           (let k5 = k4 @ [CfgAddData dataID (ID c2) (FormatRFC3339Milli L rolloutTS) jsonb] in
            case db_CfgAddData W of
              Inl err \<Rightarrow> Inr \<lparr>mr_out = ServerError err mr3, calls = k5 @ [Rollback]\<rparr>
            | Inr res4 \<Rightarrow>
            if \<not> fst (ExpectedRows mr3 res4 [1])
            then Inr \<lparr>mr_out = snd (ExpectedRows mr3 res4 [1]), calls = k5 @ [Rollback]\<rparr>
            else
            (let mr4 = snd (ExpectedRows mr3 res4 [1]);
                 k6 = k5 @ [ProvAdd dataID (ID c2) (FormatRFC3339Milli L rolloutTS) [TaskRollout]] in
             case db_ProvAdd W of
               Inl err \<Rightarrow> Inr \<lparr>mr_out = ServerError err mr4, calls = k6 @ [Rollback]\<rparr>
             | Inr discarded \<Rightarrow>
             if \<not> fst (ExpectedRows mr4 res4 [1])
             then Inr \<lparr>mr_out = snd (ExpectedRows mr4 res4 [1]), calls = k6 @ [Rollback]\<rparr>
             else
             (let mr5 = snd (ExpectedRows mr4 res4 [1]);
                  k7 = k6 @ [ActivationGet (ID c2)] in
              case
                (case db_ActivationGet W of
                   ErrNoRows \<Rightarrow> Inr ''never''
                 | QueryErr err \<Rightarrow> Inl \<lparr>mr_out = ServerError err mr5, calls = k7 @ [Rollback]\<rparr>
                 | Row activatedAt \<Rightarrow> Inr (FormatRFC3339Milli L activatedAt))
              of
                Inl early \<Rightarrow> Inr early
              | Inr activated \<Rightarrow>
              (let c3 = c2\<lparr>ActivatedAt := activated\<rparr> in
               case db_Commit W of
                 Some err \<Rightarrow> Inr \<lparr>mr_out = ServerError err mr5, calls = k7 @ [Commit]\<rparr>
               | None \<Rightarrow>
               (let data' = data\<lparr>Info :=
                              \<lparr>ValidFrom = FormatRFC3339Milli L rolloutTS,
                               ValidUntil = ''infinity'',
                               ProvisionedAt = FormatRFC3339Milli L rolloutTS,
                               DeprovisionedAt = ''never'',
                               Tasks = [TaskRollout]\<rparr>\<rparr>;
                    c4 = c3\<lparr>Data := [data']\<rparr>
                in Inr \<lparr>mr_out = OK (mr5\<lparr>Configuration := Configuration mr5 @ [c4]\<rparr>),
                        calls = k7 @ [Commit]\<rparr>))))))))))))"

text \<open>
  \<^verbatim>\<open>remove\<close> ends the validity of the active revision of a configuration. The labels
  \<^verbatim>\<open>commitTx\<close>, \<^verbatim>\<open>abort\<close> and \<^verbatim>\<open>rollback\<close> of the source are the three functions below.
\<close>

definition commitTx :: "world \<Rightarrow> msg_Result \<Rightarrow> db_call list \<Rightarrow> handled" where
  "commitTx W mr k =
     (case db_Commit W of
        Some err \<Rightarrow> \<lparr>mr_out = ServerError err mr, calls = k @ [Commit]\<rparr>
      | None \<Rightarrow> \<lparr>mr_out = OK mr, calls = k @ [Commit]\<rparr>)"

definition rollback :: "msg_Result \<Rightarrow> db_call list \<Rightarrow> handled" where
  "rollback mr k = \<lparr>mr_out = mr, calls = k @ [Rollback]\<rparr>"

definition abort :: "string \<Rightarrow> msg_Result \<Rightarrow> db_call list \<Rightarrow> handled" where
  "abort err mr k = rollback (ServerError err mr) k"

text \<open>
  The second half of \<^verbatim>\<open>remove\<close>, from the update of the provisioning record to the
  end of the function: \<^verbatim>\<open>mr\<close>, the calls made so far, the revision \<^verbatim>\<open>data\<close>, the
  transaction timestamp and the task are the local variables it continues with.
\<close>

definition remove_finalize :: "world \<Rightarrow> timelib \<Rightarrow> msg_Request \<Rightarrow> msg_Result \<Rightarrow> db_call list
    \<Rightarrow> v2_Data \<Rightarrow> Time \<Rightarrow> string \<Rightarrow> handled" where
  "remove_finalize W L q mr2 k2 data transactionTS task =
    (let k3 = k2 @ [ProvFinalize (Data_ID data) (FormatRFC3339Milli L transactionTS) task] in
     case db_ProvFinalize W of
       Inl err \<Rightarrow> abort err mr2 k3
     | Inr res \<Rightarrow>
     if \<not> fst (ExpectedRows mr2 res [1])
     then rollback (snd (ExpectedRows mr2 res [1])) k3
     else
     (let mr3 = snd (ExpectedRows mr2 res [1]) in
      if ResetActivation (q_Flags q) then
        (let k4 = k3 @ [ActivationDel (ID (q_Configuration q))] in
         case db_ActivationDel W of
           Inl err \<Rightarrow> abort err mr3 k4
         | Inr res' \<Rightarrow>
             if \<not> fst (ExpectedRows mr3 res' [0, 1])
             then rollback (snd (ExpectedRows mr3 res' [0, 1])) k4
             else commitTx W (snd (ExpectedRows mr3 res' [0, 1])) k4)
      else commitTx W mr3 k3))"

definition remove :: "world \<Rightarrow> timelib \<Rightarrow> msg_Request \<Rightarrow> msg_Result
    \<Rightarrow> (fault \<times> db_call list) + handled" where
  "remove W L q mr =
    (let transactionTS0 = UTC (now W);
         task0 = TaskDeprovision;
         validUntil0 = Add transactionTS0 (15 * Minute);
         validUntil1 = (if ConfigurationTask q = TaskDelete then transactionTS0 else validUntil0);
         task1 = (if ConfigurationTask q = TaskDelete then TaskDelete else task0);
         task = (if task1 = TaskDeprovision \<and> AlarmClearing (q_Flags q) then TaskClearing else task1)
     in
     case db_Begin W of
       Some err \<Rightarrow> Inr \<lparr>mr_out = ServerError err mr, calls = [Begin]\<rparr>
     | None \<Rightarrow>
     (let k1 = [Begin, TxCfgLoadActive q] in
      case db_CfgLoadActive W of
        ErrNoRows \<Rightarrow> Inr (commitTx W mr k1)
      | QueryErr err \<Rightarrow> Inr (abort err mr k1)
      | Row configuration \<Rightarrow>
      (case Data configuration of
         [] \<Rightarrow> Inl (IndexOutOfRange, k1)
       | data0 # rest \<Rightarrow>
       (let validUntil =
              (if \<not> Equal (PosTimeInf L) (ParseValidity L (ValidUntil (Info data0)))
               then ParseValidity L (ValidUntil (Info data0)) else validUntil1);
            transactionTS =
              (if Before (ParseProvision L (DeprovisionedAt (Info data0))) transactionTS0
               then ParseProvision L (DeprovisionedAt (Info data0)) else transactionTS0);
            data = data0\<lparr>Info := (Info data0)
                     \<lparr>ValidUntil := FormatValidity L validUntil,
                      DeprovisionedAt := FormatProvision L transactionTS\<rparr>\<rparr>;
            configuration' = configuration\<lparr>Data := data # rest\<rparr>;
            mr1 = mr\<lparr>Configuration := Configuration mr @ [configuration']\<rparr>;
            k2 = k1 @ [TxSetDataValidity (ParseValidity L (ValidFrom (Info data)))
                         (ParseValidity L (ValidUntil (Info data))) (Data_ID data)]
        in
        case txSetDataValidity W mr1 of
          (ok, Some err, mr2) \<Rightarrow> Inr (abort err mr2 k2)
        | (ok, None, mr2) \<Rightarrow>
            if \<not> ok then Inr (rollback mr2 k2)
            else Inr (remove_finalize W L q mr2 k2 data transactionTS task)))))"

text \<open>\<^verbatim>\<open>update\<close> replaces a configuration with a single statement.\<close>

definition update :: "world \<Rightarrow> msg_Request \<Rightarrow> msg_Result \<Rightarrow> (fault \<times> db_call list) + handled" where
  "update W q mr =
    (case MarshalConfiguration W (q_Configuration q) of
       Inl err \<Rightarrow> Inr \<lparr>mr_out = ServerError err mr, calls = []\<rparr>
     | Inr jsonb \<Rightarrow>
     (case db_Begin W of
        Some err \<Rightarrow> Inr \<lparr>mr_out = ServerError err mr, calls = [Begin]\<rparr>
      | None \<Rightarrow>
      (let k1 = [Begin, ConfigurationUpdate (ID (q_Configuration q)) (LookupHash q) jsonb] in
       case db_ConfigurationUpdate W of
         Inl err \<Rightarrow> Inr \<lparr>mr_out = ServerError err mr, calls = k1 @ [Rollback]\<rparr>
       | Inr res \<Rightarrow>
       (let count = fst res in
        if count \<noteq> 1 then
          Inr \<lparr>mr_out = ServerError
                  (''Rollback: update statement affected '' @ show_int count @ '' rows'') mr,
               calls = k1 @ [Rollback]\<rparr>
        else
          (case db_Commit W of
             Some err \<Rightarrow> Inr \<lparr>mr_out = ServerError err mr, calls = k1 @ [Commit]\<rparr>
           | None \<Rightarrow> Inr \<lparr>mr_out = OK mr, calls = k1 @ [Commit]\<rparr>)))))"

text \<open>\<^verbatim>\<open>activate\<close> records a configuration activation, outside of a transaction.\<close>

definition activate :: "world \<Rightarrow> msg_Request \<Rightarrow> msg_Result \<Rightarrow> (fault \<times> db_call list) + handled" where
  "activate W q mr =
    (let k1 = [ActivationSet (ID (q_Configuration q))] in
     case db_ActivationSet W of
       Inl err \<Rightarrow> Inr \<lparr>mr_out = ServerError err mr, calls = k1\<rparr>
     | Inr res \<Rightarrow>
         if fst (RowCnt mr res)
         then Inr \<lparr>mr_out = (snd (RowCnt mr res))
                     \<lparr>Configuration := Configuration (snd (RowCnt mr res)) @ [q_Configuration q]\<rparr>,
                   calls = k1\<rparr>
         else Inr \<lparr>mr_out = snd (RowCnt mr res), calls = k1\<rparr>)"

text \<open>
  \<^verbatim>\<open>process\<close> is the request dispatcher. What it returns here is what it has sent on
  the reply channel of the request (\<^verbatim>\<open>q.Reply <- result\<close>) and the database calls of
  the handler. A panic of a handler ends \<^verbatim>\<open>process\<close> before the send.
\<close>

record processed =
  Reply :: "msg_Result list"
  db_calls :: "db_call list"

definition process :: "world \<Rightarrow> timelib \<Rightarrow> msg_Request \<Rightarrow> (fault \<times> db_call list) + processed" where
  "process W L q =
    (let result = FromRequest W q in
     and_then
       (case q_Action q of
          ActionAdd \<Rightarrow> add W L q result
        | ActionRemove \<Rightarrow> remove W L q result
        | ActionUpdate \<Rightarrow> update W q result
        | ActionActivate \<Rightarrow> activate W q result
        | ActionNop \<Rightarrow> Inr \<lparr>mr_out = OK result, calls = []\<rparr>
        | _ \<Rightarrow> Inr \<lparr>mr_out = UnknownRequest q result, calls = []\<rparr>)
       (\<lambda>h. Inr \<lparr>Reply = [mr_out h], db_calls = calls h\<rparr>))"

text \<open>Observations on the outcome of a handler, of the dispatcher and of the renderer.\<close>

definition replies :: "(fault \<times> db_call list) + processed \<Rightarrow> msg_Result list" where
  "replies x = (case x of Inl f \<Rightarrow> [] | Inr p \<Rightarrow> Reply p)"

definition emitted :: "fault + rendering \<Rightarrow> event list" where
  "emitted x = (case x of Inl f \<Rightarrow> [] | Inr out \<Rightarrow> events out)"

section \<open>Observations and example instances\<close>

text \<open>Observations on the outcome of a handler and on a protocol result.\<close>

definition result_of :: "(fault \<times> db_call list) + handled \<Rightarrow> msg_Result option" where
  "result_of x = (case x of Inl f \<Rightarrow> None | Inr h \<Rightarrow> Some (mr_out h))"

definition calls_of :: "(fault \<times> db_call list) + handled \<Rightarrow> db_call list" where
  "calls_of x = (case x of Inl f \<Rightarrow> snd f | Inr h \<Rightarrow> calls h)"

definition returned_Info :: "(fault \<times> db_call list) + handled \<Rightarrow> v2_MetaInformation list list" where
  "returned_Info x =
     (case x of Inl f \<Rightarrow> [] | Inr h \<Rightarrow> map (map Info \<circ> Data) (Configuration (mr_out h)))"

definition allocated :: "v2_Result \<Rightarrow> bool" where
  "allocated p \<longleftrightarrow> Errors p \<noteq> None \<and> Configurations p \<noteq> None \<and> Registrations p \<noteq> None"

text \<open>
  Example values for the closed statements below: a configuration with one active
  revision, an instance of the renderer's parameters in which both constructors
  allocate all three lists and marshalling never fails, and results to render.
\<close>

definition sample_configuration :: v2_Configuration where
  "sample_configuration =
     \<lparr>ID = ''c1'', LookupID = ''l1'', HostID = 7, Metric = ''cpu.usage'',
      ActivatedAt = ''never'',
      Data = [\<lparr>Data_ID = ''d1'',
               Info = \<lparr>ValidFrom = ''2018-01-01T00:00:00.000Z'', ValidUntil = ''infinity'',
                       ProvisionedAt = ''2018-01-01T00:00:00.000Z'', DeprovisionedAt = ''never'',
                       Tasks = [''rollout'']\<rparr>,
               Payload = ''thresholds''\<rparr>]\<rparr>"

definition allocated_Result :: "section_t \<Rightarrow> v2_Result" where
  "allocated_Result s =
     \<lparr>StatusCode = 0, proto_Section = s, proto_Action = ActionNop,
      Errors = Some [], Configurations = Some [], Registrations = Some []\<rparr>"

definition sample_rest_lib :: "string list rest_lib" where
  "sample_rest_lib =
     \<lparr>NewConfigurationResult = allocated_Result SectionConfiguration,
      NewRegistrationResult = allocated_Result SectionRegistration,
      MarshalResult = (\<lambda>p. Inr (''status '' @ show_nat (StatusCode p))),
      ExportV1ConfigurationList = (\<lambda>r. (Code r, '''', map ID (Configuration r))),
      MarshalV1List = (\<lambda>l. Inr (concat l))\<rparr>"

definition failed_result :: msg_Result where
  "failed_result =
     \<lparr>Version = ProtocolTwo, Section = SectionConfiguration, Action = ActionAdd,
      Code = 500, Error = Some ''pq: connection refused'',
      Configuration = [sample_configuration], Registration = [],
      Flags = \<lparr>SendDeploymentFeedback = True, CacheInvalidation = True,
               AlarmClearing = True, ResetActivation = False\<rparr>,
      FeedbackURL = ''http://soma.example/feedback''\<rparr>"

definition failed_result_quiet :: msg_Result where
  "failed_result_quiet =
     failed_result\<lparr>Flags := (Flags failed_result)\<lparr>SendDeploymentFeedback := False\<rparr>\<rparr>"

definition removed_result :: msg_Result where
  "removed_result =
     \<lparr>Version = ProtocolOne, Section = SectionConfiguration, Action = ActionRemove,
      Code = 200, Error = None, Configuration = [], Registration = [],
      Flags = \<lparr>SendDeploymentFeedback = False, CacheInvalidation = False,
               AlarmClearing = False, ResetActivation = False\<rparr>,
      FeedbackURL = []\<rparr>"

definition server_error_without_text :: msg_Result where
  "server_error_without_text = removed_result\<lparr>Code := 500\<rparr>"


text \<open>
  The layout \<^verbatim>\<open>RFC3339Milli\<close> for the closed statements below: RFC 3339 with
  millisecond precision (the format section 4.1 of the specification names),
  computed from the instant and the offset of the location with the usual
  civil-calendar arithmetic; the fraction of a millisecond is cut off, and a time at
  offset 0 ends in \<^verbatim>\<open>Z\<close>. The parser reads the UTC form back.
\<close>

definition pad :: "nat \<Rightarrow> nat \<Rightarrow> string" where
  "pad w n = replicate (w - length (show_nat n)) (CHR ''0'') @ show_nat n"

definition read_nat :: "string \<Rightarrow> nat" where
  "read_nat s = foldl (\<lambda>a c. 10 * a + (of_char c - 48)) 0 s"

definition days_from_civil :: "int \<Rightarrow> int \<Rightarrow> int \<Rightarrow> int" where
  "days_from_civil y m d =
     (let y' = (if m \<le> 2 then y - 1 else y);
          era = y' div 400;
          yoe = y' mod 400;
          doy = (153 * (if m > 2 then m - 3 else m + 9) + 2) div 5 + d - 1;
          doe = yoe * 365 + yoe div 4 - yoe div 100 + doy
      in era * 146097 + doe - 719468)"

definition civil_from_days :: "int \<Rightarrow> int \<times> int \<times> int" where
  "civil_from_days z =
     (let z' = z + 719468;
          era = z' div 146097;
          doe = z' mod 146097;
          yoe = (doe - doe div 1460 + doe div 36524 - doe div 146096) div 365;
          doy = doe - (365 * yoe + yoe div 4 - yoe div 100);
          mp = (5 * doy + 2) div 153;
          d = doy - (153 * mp + 2) div 5 + 1;
          m = (if mp < 10 then mp + 3 else mp - 9);
          y = yoe + era * 400 + (if m \<le> 2 then 1 else 0)
      in (y, m, d))"

definition format_rfc3339_milli :: "Time \<Rightarrow> string" where
  "format_rfc3339_milli t =
     (let off = zone_offset t;
          ms = nanos t div 1000000 + off * 1000;
          tod = ms mod 86400000;
          zone = (if off = 0 then ''Z''
                  else (if off < 0 then ''-'' else ''+'')
                       @ pad 2 (nat (\<bar>off\<bar> div 3600)) @ '':''
                       @ pad 2 (nat (\<bar>off\<bar> mod 3600 div 60)))
      in case civil_from_days (ms div 86400000) of (y, m, d) \<Rightarrow>
           pad 4 (nat y) @ ''-'' @ pad 2 (nat m) @ ''-'' @ pad 2 (nat d) @ ''T''
           @ pad 2 (nat (tod div 3600000)) @ '':'' @ pad 2 (nat (tod mod 3600000 div 60000))
           @ '':'' @ pad 2 (nat (tod mod 60000 div 1000)) @ ''.'' @ pad 3 (nat (tod mod 1000))
           @ zone)"

definition parse_rfc3339_milli :: "string \<Rightarrow> Time" where
  "parse_rfc3339_milli s =
     (let field = (\<lambda>i n. int (read_nat (take n (drop i s))));
          days = days_from_civil (field 0 4) (field 5 2) (field 8 2);
          ms = ((days * 24 + field 11 2) * 60 + field 14 2) * 60000 + field 17 2 * 1000 + field 20 3
      in \<lparr>nanos = ms * 1000000, zone_offset = 0\<rparr>)"

text \<open>
  Modelled from the spec: the constant \<^verbatim>\<open>msg.PosTimeInf\<close> of the message package,
  whose source file is not part of this development. Section 4.1: \<^verbatim>\<open>infinity\<close> is
  positive-time-infinity, after any instant. It is represented by the last
  millisecond of the year 9999.
\<close>

definition sample_PosTimeInf :: Time where
  "sample_PosTimeInf = \<lparr>nanos = 253402300799999000000, zone_offset = 0\<rparr>"

text \<open>
  Modelled from the spec: the instant behind the sentinel \<^verbatim>\<open>never\<close> in the protocol
  package, whose source file is not part of this development. Section 4.1: \<^verbatim>\<open>never\<close>
  is negative-time-infinity, and negative infinity is before any instant. It is
  represented by the first instant of the year 1.
\<close>

definition sample_NegTimeInf :: Time where
  "sample_NegTimeInf = \<lparr>nanos = - 62135596800000000000, zone_offset = 0\<rparr>"

text \<open>
  Modelled from the spec: \<^verbatim>\<open>v2.ParseValidity\<close>, \<^verbatim>\<open>v2.FormatValidity\<close>,
  \<^verbatim>\<open>v2.ParseProvision\<close> and \<^verbatim>\<open>v2.FormatProvision\<close>, functions of the protocol package,
  whose source file is not part of this development. Section 4.1: timestamps are
  RFC 3339 with millisecond precision, and the sentinels are recognised when
  parsing and formatting, \<^verbatim>\<open>infinity\<close> for a validity and \<^verbatim>\<open>never\<close> for a
  provisioning timestamp.
\<close>

definition sample_timelib :: timelib where
  "sample_timelib =
     \<lparr>PosTimeInf = sample_PosTimeInf,
      ParseValidity = (\<lambda>s. if s = ''infinity'' then sample_PosTimeInf else parse_rfc3339_milli s),
      FormatValidity =
        (\<lambda>t. if Equal t sample_PosTimeInf then ''infinity'' else format_rfc3339_milli t),
      ParseProvision = (\<lambda>s. if s = ''never'' then sample_NegTimeInf else parse_rfc3339_milli s),
      FormatProvision =
        (\<lambda>t. if Equal t sample_NegTimeInf then ''never'' else format_rfc3339_milli t),
      FormatRFC3339Milli = format_rfc3339_milli\<rparr>"

text \<open>
  An example world: the clock reads 2018-06-01 14:00:00 at two hours east of UTC,
  which is 12:00:00 UTC, every statement succeeds and affects one row, no earlier
  revision is open for \<^verbatim>\<open>add\<close>, and \<^verbatim>\<open>remove\<close> loads the example configuration. The
  variants change one answer each.
\<close>

definition sample_flags :: msg_Flags where
  "sample_flags =
     \<lparr>SendDeploymentFeedback = False, CacheInvalidation = False,
      AlarmClearing = False, ResetActivation = False\<rparr>"

definition sample_request :: "action_t \<Rightarrow> msg_Request" where
  "sample_request a =
     \<lparr>q_Version = ProtocolTwo, q_Section = SectionConfiguration, q_Action = a,
      q_Flags = sample_flags, q_Configuration = sample_configuration,
      LookupHash = ''l1'', ConfigurationTask = TaskDeprovision\<rparr>"

definition sample_FromRequest :: "msg_Request \<Rightarrow> msg_Result" where
  "sample_FromRequest q =
     \<lparr>Version = q_Version q, Section = q_Section q, Action = q_Action q,
      Code = 0, Error = None, Configuration = [], Registration = [],
      Flags = q_Flags q, FeedbackURL = []\<rparr>"

definition sample_world :: world where
  "sample_world =
     \<lparr>now = \<lparr>nanos = 1527854400000000000, zone_offset = 7200\<rparr>,
      NewV4 = Inr ''de305d54-75b4-431b-adb2-eb6b9e546014'',
      MarshalConfiguration = (\<lambda>c. Inr (''configuration '' @ ID c)),
      FromRequest = sample_FromRequest,
      db_Begin = None,
      db_Commit = None,
      db_NewLookupAdd = Inr (1, None),
      db_CfgAddID = Inr (1, None),
      db_CfgSelectValidForUpdate = ErrNoRows,
      db_CfgDataUpdateValidity = Inr (1, None),
      db_CfgAddData = Inr (1, None),
      db_ProvAdd = Inr (1, None),
      db_ActivationGet = ErrNoRows,
      db_CfgLoadActive = Row sample_configuration,
      db_SetDataValidity = Inr (1, None),
      db_ProvFinalize = Inr (1, None),
      db_ActivationDel = Inr (1, None),
      db_ConfigurationUpdate = Inr (1, None),
      db_ActivationSet = Inr (1, None)\<rparr>"

definition zero_rows_provisioning :: world where
  "zero_rows_provisioning = sample_world\<lparr>db_ProvAdd := Inr (0, None)\<rparr>"

definition future_dated_configuration :: v2_Configuration where
  "future_dated_configuration =
     \<lparr>ID = ''c1'', LookupID = ''l1'', HostID = 7, Metric = ''cpu.usage'',
      ActivatedAt = ''never'',
      Data = [\<lparr>Data_ID = ''d1'',
               Info = \<lparr>ValidFrom = ''2018-01-01T00:00:00.000Z'', ValidUntil = ''infinity'',
                       ProvisionedAt = ''2018-01-01T00:00:00.000Z'',
                       DeprovisionedAt = ''2030-01-01T00:00:00.000Z'',
                       Tasks = [''rollout'']\<rparr>,
               Payload = ''thresholds''\<rparr>]\<rparr>"

definition future_dated_world :: world where
  "future_dated_world = sample_world\<lparr>db_CfgLoadActive := Row future_dated_configuration\<rparr>"

definition sub_millisecond_world :: world where
  "sub_millisecond_world =
     sample_world\<lparr>now := \<lparr>nanos = 1527854400000000001, zone_offset = 7200\<rparr>\<rparr>"

definition delete_request :: msg_Request where
  "delete_request = (sample_request ActionRemove)\<lparr>ConfigurationTask := TaskDelete\<rparr>"

definition three_rows_updated :: world where
  "three_rows_updated = sample_world\<lparr>db_ConfigurationUpdate := Inr (3, None)\<rparr>"

definition commit_fails :: world where
  "commit_fails = sample_world\<lparr>db_Commit := Some ''pq: could not serialize access''\<rparr>"

definition empty_add_request :: msg_Request where
  "empty_add_request =
     (sample_request ActionAdd)\<lparr>q_Configuration := sample_configuration\<lparr>Data := []\<rparr>\<rparr>"

section \<open>Properties of the result renderer\<close>

text \<open>
  The version 2 emitter can only fail by dereferencing a nil pointer of the protocol
  result, and every such dereference precedes the first goroutine and the reply.
  When the status code is 400 or more and the emitter returns, its outcome is fully
  determined: both payload lists are empty, the two flags are off, a feedback call
  goes out exactly on the \<^verbatim>\<open>SendDeploymentFeedback\<close> flag, with the token \<^verbatim>\<open>failed\<close>,
  and the reply follows.
\<close>

lemma respondV2_fault:
  "respondV2 L r = Inl f \<Longrightarrow> f = NilPointerDereference"
  by (auto simp: respondV2_def and_then_def append_deref_def clear_deref_def Let_def
      split: option.splits sum.splits section_t.splits if_splits prod.splits)

lemma respondV2_error_shape:
  assumes "400 \<le> Code r" and "respondV2 L r = Inr out"
  shows "\<exists>p. protoRes out = Some p \<and> Configurations p = Some [] \<and> Registrations p = Some []
           \<and> r_after out = r\<lparr>Flags := (Flags r)\<lparr>CacheInvalidation := False, AlarmClearing := False\<rparr>\<rparr>
           \<and> events out =
               (if SendDeploymentFeedback (Flags r)
                then [GoSendSomaFeedback (FeedbackURL r) ''failed''] else [])
               @ [case MarshalResult L p of Inl err \<Rightarrow> HardInternalError | Inr b \<Rightarrow> SendJSONReply b]"
  using assms
  by (auto simp: respondV2_def and_then_def append_deref_def clear_deref_def Let_def SetStatus_def
      split: option.splits sum.splits section_t.splits if_splits prod.splits)

text \<open>
  The emitter returns whenever the constructors allocate the three lists and the
  section is one of the four the source names.
\<close>

lemma respondV2_renders:
  assumes "allocated (NewConfigurationResult L)" and "allocated (NewRegistrationResult L)"
    and "\<forall>s. Section r \<noteq> SectionOther s"
  shows "\<exists>out. respondV2 L r = Inr out"
proof (cases "respondV2 L r")
  case (Inl f)
  then have False
    using assms
    by (auto simp: respondV2_def and_then_def append_deref_def clear_deref_def Let_def
        SetStatus_def allocated_def omitempty_def
        split: option.splits sum.splits section_t.splits if_splits prod.splits)
  then show ?thesis ..
next
  case (Inr out)
  then show ?thesis by blast
qed

text \<open>
  A result with a status code of 400 or more is rendered only if the constructor of
  its section has allocated both payload lists: the source clears both through their
  pointers, whatever the section.
\<close>

lemma respondV2_error_needs_allocation:
  assumes "400 \<le> Code r" and "respondV2 L r = Inr out"
  shows "(\<forall>s. Section r \<noteq> SectionOther s)
         \<and> (Section r \<noteq> SectionRegistration \<longrightarrow>
               Configurations (NewConfigurationResult L) \<noteq> None
               \<and> Registrations (NewConfigurationResult L) \<noteq> None)
         \<and> (Section r = SectionRegistration \<longrightarrow>
               Configurations (NewRegistrationResult L) \<noteq> None
               \<and> Registrations (NewRegistrationResult L) \<noteq> None)"
  using assms
  by (cases "Section r"; cases "Error r")
     (auto simp: respondV2_def and_then_def append_deref_def clear_deref_def Let_def
        SetStatus_def omitempty_def zero_v2_Result_def
        split: option.splits sum.splits if_splits)

text \<open>
  Under every instance whose constructors allocate the three lists, a result of one
  of the four sections with a status code of 400 or more and the feedback flag set
  is rendered with a feedback call that carries the token \<^verbatim>\<open>failed\<close>.
\<close>

lemma respondV2_error_feedback_emitted:
  assumes "allocated (NewConfigurationResult L)" and "allocated (NewRegistrationResult L)"
    and "\<forall>s. Section r \<noteq> SectionOther s"
    and "400 \<le> Code r" and "SendDeploymentFeedback (Flags r)"
  shows "GoSendSomaFeedback (FeedbackURL r) ''failed'' \<in> set (emitted (respondV2 L r))"
proof -
  from respondV2_renders [OF assms(1-3)] obtain out where out: "respondV2 L r = Inr out"
    by blast
  from respondV2_error_shape [OF assms(4) out] assms(5) obtain p where
    "events out = [GoSendSomaFeedback (FeedbackURL r) ''failed'']
       @ [case MarshalResult L p of Inl err \<Rightarrow> HardInternalError | Inr b \<Rightarrow> SendJSONReply b]"
    by auto
  with out show ?thesis
    by (simp add: emitted_def)
qed

text \<open>
  Claim C1. For every result rendered by the version 2 renderer whose status code is
  at least 400, the rendered protocol result contains no configuration objects and no
  registration objects (a JSON reply is the encoding of that result), the
  \<^verbatim>\<open>CacheInvalidation\<close> and \<^verbatim>\<open>AlarmClearing\<close> flags of the internal result are false
  afterwards, and no alarm-clearing goroutine is started. The source has no
  cache-invalidation call at all.
\<close>

theorem respondV2_no_leak_on_error:
  assumes "400 \<le> Code r" and "respondV2 L r = Inr out"
  shows "(\<exists>p. protoRes out = Some p \<and> Configurations p = Some [] \<and> Registrations p = Some []
            \<and> (\<forall>b. SendJSONReply b \<in> set (events out) \<longrightarrow> MarshalResult L p = Inr b))
         \<and> \<not> CacheInvalidation (Flags (r_after out))
         \<and> \<not> AlarmClearing (Flags (r_after out))
         \<and> (\<forall>x. GoClearCamsAlarm x \<notin> set (events out))"
proof -
  from respondV2_error_shape [OF assms] obtain p where
    p: "protoRes out = Some p" "Configurations p = Some []" "Registrations p = Some []"
    and fl: "r_after out = r\<lparr>Flags := (Flags r)\<lparr>CacheInvalidation := False, AlarmClearing := False\<rparr>\<rparr>"
    and ev: "events out =
               (if SendDeploymentFeedback (Flags r)
                then [GoSendSomaFeedback (FeedbackURL r) ''failed''] else [])
               @ [case MarshalResult L p of Inl err \<Rightarrow> HardInternalError | Inr b \<Rightarrow> SendJSONReply b]"
    by blast
  have reply: "\<forall>b. SendJSONReply b \<in> set (events out) \<longrightarrow> MarshalResult L p = Inr b"
    using ev by (cases "MarshalResult L p") (auto split: if_splits)
  have quiet: "\<forall>x. GoClearCamsAlarm x \<notin> set (events out)"
    using ev by (cases "MarshalResult L p") (auto split: if_splits)
  show ?thesis
    using p fl reply quiet by simp
qed

theorem respondV2_no_leak_on_error_witness:
  "400 \<le> Code failed_result
   \<and> respondV2 sample_rest_lib failed_result =
       Inr \<lparr>events = [GoSendSomaFeedback ''http://soma.example/feedback'' ''failed'',
                      SendJSONReply ''status 500''],
            protoRes = Some \<lparr>StatusCode = 500, proto_Section = SectionConfiguration,
                             proto_Action = ActionAdd,
                             Errors = Some [''pq: connection refused''],
                             Configurations = Some [], Registrations = Some []\<rparr>,
            r_after = failed_result\<lparr>Flags := (Flags failed_result)
                        \<lparr>CacheInvalidation := False, AlarmClearing := False\<rparr>\<rparr>\<rparr>
   \<and> \<not> AlarmClearing (Flags (failed_result\<lparr>Flags := (Flags failed_result)
                        \<lparr>CacheInvalidation := False, AlarmClearing := False\<rparr>\<rparr>))"
proof -
  have h1: "400 \<le> Code failed_result"
    by (simp add: failed_result_def)
  have h2: "respondV2 sample_rest_lib failed_result =
       Inr \<lparr>events = [GoSendSomaFeedback ''http://soma.example/feedback'' ''failed'',
                      SendJSONReply ''status 500''],
            protoRes = Some \<lparr>StatusCode = 500, proto_Section = SectionConfiguration,
                             proto_Action = ActionAdd,
                             Errors = Some [''pq: connection refused''],
                             Configurations = Some [], Registrations = Some []\<rparr>,
            r_after = failed_result\<lparr>Flags := (Flags failed_result)
                        \<lparr>CacheInvalidation := False, AlarmClearing := False\<rparr>\<rparr>\<rparr>"
    by (simp add: respondV2_def sample_rest_lib_def failed_result_def allocated_Result_def
        and_then_def append_deref_def clear_deref_def omitempty_def SetStatus_def
        show_nat.simps digit_def)
  from respondV2_no_leak_on_error [OF h1 h2] h1 h2 show ?thesis
    by simp
qed

text \<open>
  Claim C2, as amended. For every result rendered by the version 2 renderer whose
  status code is at least 400, a deployment-feedback call is emitted exactly when the
  \<^verbatim>\<open>SendDeploymentFeedback\<close> flag is set; it goes to the \<^verbatim>\<open>FeedbackURL\<close> of the result
  and carries the token \<^verbatim>\<open>failed\<close>, never \<^verbatim>\<open>success\<close>. No alarm-clearing call is
  emitted.
\<close>

theorem respondV2_feedback_on_error:
  assumes "400 \<le> Code r" and "respondV2 L r = Inr out"
  shows "(\<forall>u t. GoSendSomaFeedback u t \<in> set (events out) \<longleftrightarrow>
            SendDeploymentFeedback (Flags r) \<and> u = FeedbackURL r \<and> t = ''failed'')
         \<and> (\<forall>x. GoClearCamsAlarm x \<notin> set (events out))"
proof -
  from respondV2_error_shape [OF assms] obtain p where
    ev: "events out =
               (if SendDeploymentFeedback (Flags r)
                then [GoSendSomaFeedback (FeedbackURL r) ''failed''] else [])
               @ [case MarshalResult L p of Inl err \<Rightarrow> HardInternalError | Inr b \<Rightarrow> SendJSONReply b]"
    by blast
  show ?thesis
    using ev by (cases "MarshalResult L p") (auto split: if_splits)
qed

theorem respondV2_feedback_on_error_witness:
  "400 \<le> Code failed_result_quiet
   \<and> respondV2 sample_rest_lib failed_result_quiet =
       Inr \<lparr>events = [SendJSONReply ''status 500''],
            protoRes = Some \<lparr>StatusCode = 500, proto_Section = SectionConfiguration,
                             proto_Action = ActionAdd,
                             Errors = Some [''pq: connection refused''],
                             Configurations = Some [], Registrations = Some []\<rparr>,
            r_after = failed_result_quiet\<lparr>Flags := (Flags failed_result_quiet)
                        \<lparr>CacheInvalidation := False, AlarmClearing := False\<rparr>\<rparr>\<rparr>
   \<and> (\<forall>u t. GoSendSomaFeedback u t \<notin> set [SendJSONReply ''status 500''])"
proof -
  have h1: "400 \<le> Code failed_result_quiet"
    by (simp add: failed_result_quiet_def failed_result_def)
  have h2: "respondV2 sample_rest_lib failed_result_quiet =
       Inr \<lparr>events = [SendJSONReply ''status 500''],
            protoRes = Some \<lparr>StatusCode = 500, proto_Section = SectionConfiguration,
                             proto_Action = ActionAdd,
                             Errors = Some [''pq: connection refused''],
                             Configurations = Some [], Registrations = Some []\<rparr>,
            r_after = failed_result_quiet\<lparr>Flags := (Flags failed_result_quiet)
                        \<lparr>CacheInvalidation := False, AlarmClearing := False\<rparr>\<rparr>\<rparr>"
    by (simp add: respondV2_def sample_rest_lib_def failed_result_quiet_def failed_result_def
        allocated_Result_def and_then_def append_deref_def clear_deref_def omitempty_def
        SetStatus_def show_nat.simps digit_def)
  from respondV2_feedback_on_error [OF h1 h2] h1 h2 show ?thesis
    by simp
qed

text \<open>
  Claim C2 as stated (no feedback call on a status of 400 or more) fails: a result
  with status 500 and the feedback flag set is rendered with a feedback call.
\<close>

theorem respondV2_failed_feedback_counterexample:
  "400 \<le> Code failed_result
   \<and> SendDeploymentFeedback (Flags failed_result)
   \<and> emitted (respondV2 sample_rest_lib failed_result) =
       [GoSendSomaFeedback ''http://soma.example/feedback'' ''failed'',
        SendJSONReply ''status 500'']"
  by (simp add: emitted_def respondV2_def sample_rest_lib_def failed_result_def allocated_Result_def
      and_then_def append_deref_def clear_deref_def omitempty_def SetStatus_def
      show_nat.simps digit_def)

lemma respondV1_fault:
  "respondV1 L r = Inl f \<longleftrightarrow>
     Section r = SectionRegistration \<and> f = Panic ''API Protocol 1 does not have registrations''"
  by (auto simp: respondV1_def split: sum.splits prod.splits)

text \<open>
  The \<^verbatim>\<open>panic\<close> statements of the renderer are reached exactly for the version
  \<^verbatim>\<open>ProtocolInvalid\<close> and for \<^verbatim>\<open>ProtocolOne\<close> with the section \<^verbatim>\<open>Registration\<close>, and
  version 1 on another section returns. The runtime panics of the version 2 emitter
  are not among them.
\<close>

lemma respond_panic_statements:
  "((\<exists>m. respond L r = Inl (Panic m)) \<longleftrightarrow>
      (Version r = ProtocolInvalid \<or> (Version r = ProtocolOne \<and> Section r = SectionRegistration)))
   \<and> (Version r = ProtocolOne \<and> Section r \<noteq> SectionRegistration \<longrightarrow> (\<exists>out. respond L r = Inr out))"
proof -
  have v2: "\<forall>m. respondV2 L r \<noteq> Inl (Panic m)"
    using respondV2_fault [of L r] by auto
  have v1: "(\<exists>m. respondV1 L r = Inl (Panic m)) \<longleftrightarrow> Section r = SectionRegistration"
    by (auto simp: respondV1_fault)
  have v1': "Section r \<noteq> SectionRegistration \<Longrightarrow> \<exists>out. respondV1 L r = Inr out"
    using respondV1_fault [of L r] by (cases "respondV1 L r") auto
  show ?thesis
    using v1 v1' v2 by (cases "Version r") (auto simp: respond_def)
qed

text \<open>
  Under \<^verbatim>\<open>ProtocolTwo\<close>, a result whose section is none of the four the emitter
  names leaves the protocol result at its zero value, with every pointer nil. If the
  result carries an error, line 94 appends to the nil error list; if its status code
  is 400 or more, line 126 clears the nil configuration list. Either way the
  renderer ends in a nil-pointer panic, whatever the library.
\<close>

lemma respond_unknown_section_panics:
  assumes "Version r = ProtocolTwo" and "Section r = SectionOther s"
    and "Error r \<noteq> None \<or> 400 \<le> Code r"
  shows "respond L r = Inl NilPointerDereference"
  using assms
  by (cases "Error r")
     (auto simp: respond_def respondV2_def and_then_def append_deref_def clear_deref_def
        zero_v2_Result_def SetStatus_def omitempty_def Let_def)


text \<open>
  Claim C9, as amended. For every version 1 remove result on the Configuration
  section: a result that carries an error and a status code of at least
  \<^verbatim>\<open>ResultServerError\<close> is rendered as HTTP 500 with the error text; a result that
  carries an error and a status code of at least \<^verbatim>\<open>ResultBadRequest\<close>, below
  \<^verbatim>\<open>ResultServerError\<close>, is rendered as HTTP 400 with the error text; every other
  result (no error, or a status code below \<^verbatim>\<open>ResultBadRequest\<close>) is rendered as
  HTTP 204 with an empty body.
\<close>

theorem respondV1_remove_rendering:
  assumes "Section r = SectionConfiguration" and "Action r = ActionRemove"
  shows "respondV1 L r =
     Inr \<lparr>events =
            (case Error r of
               None \<Rightarrow> [WriteHeader 204, Write []]
             | Some e \<Rightarrow>
                 if ResultServerError \<le> Code r then [HttpError e 500]
                 else if ResultBadRequest \<le> Code r then [HttpError e 400]
                 else [WriteHeader 204, Write []]),
          protoRes = None, r_after = r\<rparr>"
  using assms
  by (auto simp: respondV1_def StatusNoContent_def StatusBadRequest_def
      StatusInternalServerError_def split: option.splits)

theorem respondV1_remove_rendering_witness:
  "Section removed_result = SectionConfiguration \<and> Action removed_result = ActionRemove
   \<and> respondV1 sample_rest_lib removed_result =
       Inr \<lparr>events = [WriteHeader 204, Write []], protoRes = None, r_after = removed_result\<rparr>"
proof -
  have h1: "Section removed_result = SectionConfiguration"
    by (simp add: removed_result_def)
  have h2: "Action removed_result = ActionRemove"
    by (simp add: removed_result_def)
  have h3: "Error removed_result = None"
    by (simp add: removed_result_def)
  from respondV1_remove_rendering [OF h1 h2, of sample_rest_lib] h1 h2 h3 show ?thesis
    by simp
qed

text \<open>
  Claim C9 as stated fails for a result that carries the server-error status code and
  no error: the guard \<^verbatim>\<open>r.Error != nil\<close> sends it to the HTTP 204 branch.
\<close>

theorem respondV1_remove_counterexample:
  "Section server_error_without_text = SectionConfiguration
   \<and> Action server_error_without_text = ActionRemove
   \<and> Code server_error_without_text = ResultServerError
   \<and> emitted (respondV1 sample_rest_lib server_error_without_text) =
       [WriteHeader 204, Write []]"
  by (simp add: server_error_without_text_def removed_result_def respondV1_def emitted_def
      ResultServerError_def StatusNoContent_def)

section \<open>Properties of the write worker\<close>

lemmas fixture_defs = sample_world_def sample_timelib_def sample_PosTimeInf_def
  sample_NegTimeInf_def sample_request_def sample_FromRequest_def sample_configuration_def
  sample_flags_def

lemmas Time_defs = UTC_def Add_def Before_def Equal_def

lemmas msg_defs = OK_def ServerError_def ExpectedRows_def InvariantViolation_def RowCnt_def
  UnknownRequest_def ResultOK_def ResultServerError_def ResultBadRequest_def
  TaskRollout_def TaskDeprovision_def TaskDelete_def TaskClearing_def

text \<open>The timestamps of the example world, formatted and parsed.\<close>

lemma fmt_now:
  "format_rfc3339_milli \<lparr>nanos = 1527854400000000000, zone_offset = 0\<rparr>
     = ''2018-06-01T12:00:00.000Z''"
  by code_simp

lemma fmt_now_local:
  "format_rfc3339_milli \<lparr>nanos = 1527854400000000000, zone_offset = 7200\<rparr>
     = ''2018-06-01T14:00:00.000+02:00''"
  by code_simp

lemma fmt_sub_millisecond:
  "format_rfc3339_milli \<lparr>nanos = 1527854400000000001, zone_offset = 0\<rparr>
     = ''2018-06-01T12:00:00.000Z''"
  by code_simp

lemma fmt_grace:
  "format_rfc3339_milli \<lparr>nanos = 1527855300000000000, zone_offset = 0\<rparr>
     = ''2018-06-01T12:15:00.000Z''"
  by code_simp

lemma fmt_never:
  "format_rfc3339_milli \<lparr>nanos = - 62135596800000000000, zone_offset = 0\<rparr>
     = ''0001-01-01T00:00:00.000Z''"
  by code_simp

lemma parse_now:
  "parse_rfc3339_milli ''2018-06-01T12:00:00.000Z''
     = \<lparr>nanos = 1527854400000000000, zone_offset = 0\<rparr>"
  by code_simp

lemma parse_grace:
  "parse_rfc3339_milli ''2018-06-01T12:15:00.000Z''
     = \<lparr>nanos = 1527855300000000000, zone_offset = 0\<rparr>"
  by code_simp

lemma parse_valid_from:
  "parse_rfc3339_milli ''2018-01-01T00:00:00.000Z''
     = \<lparr>nanos = 1514764800000000000, zone_offset = 0\<rparr>"
  by code_simp

lemma parse_future:
  "parse_rfc3339_milli ''2030-01-01T00:00:00.000Z''
     = \<lparr>nanos = 1893456000000000000, zone_offset = 0\<rparr>"
  by code_simp

lemmas stamp_simps = fmt_now fmt_sub_millisecond fmt_grace fmt_never parse_now parse_grace
  parse_valid_from parse_future

lemma show_int_3: "show_int 3 = ''3''"
  by (simp add: show_int_def show_nat.simps digit_def)

subsection \<open>add\<close>

text \<open>
  Once the UUID is generated and the first revision of the request is read, \<^verbatim>\<open>add\<close>
  returns on every path; on an empty \<^verbatim>\<open>Data\<close> list it panics before the first
  database call.
\<close>

lemma add_returns:
  assumes "NewV4 W = Inr u" and "Data (q_Configuration q) = d # ds"
  shows "\<exists>h. add W L q mr = Inr h"
  using assms
  by (simp add: add_def Let_def split: sum.split option.split query.split prod.split)

lemma add_empty_Data:
  assumes "NewV4 W = Inr u" and "Data (q_Configuration q) = []"
  shows "add W L q mr = Inl (IndexOutOfRange, [])"
  using assms by (simp add: add_def)

text \<open>
  Claim C10. The add handler indexes \<^verbatim>\<open>q.Configuration.Data[0]\<close> before any database
  call: once the UUID is generated, the handler panics with an index out of range,
  having made no database call, exactly when the \<^verbatim>\<open>Data\<close> list of the request is
  empty, and it returns exactly when the list is non-empty.
\<close>

theorem add_reads_first_Data_element:
  assumes "NewV4 W = Inr u"
  shows "(add W L q mr = Inl (IndexOutOfRange, []) \<longleftrightarrow> Data (q_Configuration q) = [])
         \<and> ((\<exists>h. add W L q mr = Inr h) \<longleftrightarrow> Data (q_Configuration q) \<noteq> [])"
proof (cases "Data (q_Configuration q)")
  case Nil
  with assms have "add W L q mr = Inl (IndexOutOfRange, [])"
    by (rule add_empty_Data)
  with Nil show ?thesis by simp
next
  case (Cons d ds)
  with assms obtain h where "add W L q mr = Inr h"
    using add_returns by blast
  with Cons show ?thesis by simp
qed

theorem add_reads_first_Data_element_witness:
  "NewV4 sample_world = Inr ''de305d54-75b4-431b-adb2-eb6b9e546014''
   \<and> Data (q_Configuration (sample_request ActionAdd)) \<noteq> []
   \<and> (\<exists>h. add sample_world sample_timelib (sample_request ActionAdd)
              (sample_FromRequest (sample_request ActionAdd)) = Inr h)"
proof -
  have h: "NewV4 sample_world = Inr ''de305d54-75b4-431b-adb2-eb6b9e546014''"
    by (simp add: sample_world_def)
  have d: "Data (q_Configuration (sample_request ActionAdd)) \<noteq> []"
    by (simp add: sample_request_def sample_configuration_def)
  from add_reads_first_Data_element [OF h] h d show ?thesis
    by simp
qed

text \<open>
  The answer of the database to the provisioning insert does not influence \<^verbatim>\<open>add\<close>,
  as long as the statement does not fail: its \<^verbatim>\<open>sql.Result\<close> is discarded.
\<close>

lemma add_ignores_provisioning_result:
  "add (W\<lparr>db_ProvAdd := Inr a\<rparr>) L q mr = add (W\<lparr>db_ProvAdd := Inr b\<rparr>) L q mr"
  by (simp add: add_def Let_def split del: if_split cong: if_cong option.case_cong sum.case_cong query.case_cong list.case_cong)

text \<open>
  Claim C3 fails on the code. In the world where every statement succeeds and the
  provisioning insert affects 0 rows, \<^verbatim>\<open>add\<close> makes the insert, checks the row count
  that the data insert before it returned, commits, and returns OK: the transaction
  is not rolled back and the result is not an invariant violation.
\<close>

theorem add_provisioning_row_count_unchecked:
  "db_ProvAdd zero_rows_provisioning = Inr (0, None)
   \<and> map_option Code (result_of (add zero_rows_provisioning sample_timelib (sample_request ActionAdd)
        (sample_FromRequest (sample_request ActionAdd)))) = Some ResultOK
   \<and> calls_of (add zero_rows_provisioning sample_timelib (sample_request ActionAdd)
        (sample_FromRequest (sample_request ActionAdd))) =
      [Begin, NewLookupAdd ''l1'' 7 ''cpu.usage'', CfgAddID ''c1'' ''l1'',
       CfgSelectValidForUpdate ''c1'',
       CfgAddData ''de305d54-75b4-431b-adb2-eb6b9e546014'' ''c1''
         ''2018-06-01T12:00:00.000Z'' ''configuration c1'',
       ProvAdd ''de305d54-75b4-431b-adb2-eb6b9e546014'' ''c1''
         ''2018-06-01T12:00:00.000Z'' [''rollout''],
       ActivationGet ''c1'', Commit]"
  by (simp add: zero_rows_provisioning_def add_def Let_def fixture_defs msg_defs fmt_now
      UTC_def int_of_uint64_def zero_MetaInformation_def result_of_def calls_of_def)

subsection \<open>remove\<close>

text \<open>
  None of the result methods and none of the exits of \<^verbatim>\<open>remove\<close> touches the payload
  of the result.
\<close>

lemma Configuration_ServerError [simp]: "Configuration (ServerError e r) = Configuration r"
  by (simp add: ServerError_def)

lemma Configuration_OK [simp]: "Configuration (OK r) = Configuration r"
  by (simp add: OK_def)

lemma Configuration_ExpectedRows [simp]:
  "Configuration (snd (ExpectedRows r res expected)) = Configuration r"
  by (simp add: ExpectedRows_def InvariantViolation_def split: option.split)

lemma Configuration_commitTx [simp]: "Configuration (mr_out (commitTx W r k)) = Configuration r"
  by (simp add: commitTx_def split: option.split)

lemma Configuration_rollback [simp]: "Configuration (mr_out (rollback r k)) = Configuration r"
  by (simp add: rollback_def)

lemma Configuration_abort [simp]: "Configuration (mr_out (abort e r k)) = Configuration r"
  by (simp add: abort_def)

lemma Configuration_txSetDataValidity [simp]:
  "Configuration (snd (snd (txSetDataValidity W r))) = Configuration r"
  by (simp add: txSetDataValidity_def split: sum.split)

lemma Configuration_remove_finalize [simp]:
  "Configuration (mr_out (remove_finalize W L q r k data ts task)) = Configuration r"
  by (simp add: remove_finalize_def Let_def split: sum.split)

text \<open>
  When an active configuration with at least one revision is loaded, \<^verbatim>\<open>remove\<close>
  returns, and the configuration it has appended to the result carries the clamped
  validity and the backdated deprovisioning timestamp, whatever the database answers
  afterwards.
\<close>

lemma remove_loaded:
  assumes "db_Begin W = None" and "db_CfgLoadActive W = Row c" and "Data c = d # ds"
  shows "\<exists>h. remove W L q mr = Inr h \<and>
           Configuration (mr_out h) = Configuration mr @
             [c\<lparr>Data := d\<lparr>Info := (Info d)
                 \<lparr>ValidUntil := FormatValidity L
                    (if \<not> Equal (PosTimeInf L) (ParseValidity L (ValidUntil (Info d)))
                     then ParseValidity L (ValidUntil (Info d))
                     else if ConfigurationTask q = TaskDelete then UTC (now W)
                          else Add (UTC (now W)) (15 * Minute)),
                  DeprovisionedAt := FormatProvision L
                    (if Before (ParseProvision L (DeprovisionedAt (Info d))) (UTC (now W))
                     then ParseProvision L (DeprovisionedAt (Info d)) else UTC (now W))\<rparr>\<rparr> # ds\<rparr>]"
proof -
  let ?mr1 = "mr\<lparr>Configuration := Configuration mr @
             [c\<lparr>Data := d\<lparr>Info := (Info d)
                 \<lparr>ValidUntil := FormatValidity L
                    (if \<not> Equal (PosTimeInf L) (ParseValidity L (ValidUntil (Info d)))
                     then ParseValidity L (ValidUntil (Info d))
                     else if ConfigurationTask q = TaskDelete then UTC (now W)
                          else Add (UTC (now W)) (15 * Minute)),
                  DeprovisionedAt := FormatProvision L
                    (if Before (ParseProvision L (DeprovisionedAt (Info d))) (UTC (now W))
                     then ParseProvision L (DeprovisionedAt (Info d)) else UTC (now W))\<rparr>\<rparr> # ds\<rparr>]\<rparr>"
  obtain ok err mr2 where t: "txSetDataValidity W ?mr1 = (ok, err, mr2)"
    by (metis prod_cases3)
  have c2: "Configuration mr2 = Configuration ?mr1"
    using Configuration_txSetDataValidity [of W ?mr1] t by simp
  show ?thesis
    using assms t c2
    by (cases err; cases ok) (simp_all add: remove_def Let_def split del: if_split)
qed

lemma remove_returns:
  assumes "\<And>c. db_Begin W = None \<Longrightarrow> db_CfgLoadActive W = Row c \<Longrightarrow> Data c \<noteq> []"
  shows "\<exists>h. remove W L q mr = Inr h"
proof (cases "db_Begin W")
  case (Some err)
  then show ?thesis by (simp add: remove_def Let_def)
next
  case None
  show ?thesis
  proof (cases "db_CfgLoadActive W")
    case ErrNoRows
    with None show ?thesis by (simp add: remove_def Let_def)
  next
    case (QueryErr err)
    with None show ?thesis by (simp add: remove_def Let_def)
  next
    case (Row c)
    with None assms obtain d ds where "Data c = d # ds"
      by (cases "Data c") auto
    with None Row show ?thesis
      using remove_loaded by blast
  qed
qed

lemma remove_empty_Data:
  assumes "db_Begin W = None" and "db_CfgLoadActive W = Row c" and "Data c = []"
  shows "remove W L q mr = Inl (IndexOutOfRange, [Begin, TxCfgLoadActive q])"
  using assms by (simp add: remove_def Let_def)

lemma Minute_nonneg: "0 \<le> Minute"
  by (simp add: Minute_def)

text \<open>
  The transaction that succeeds. When the active revision is loaded, the validity
  update and the finalization of the provisioning record affect one row each, the
  reset of the activation (if requested) affects at most one row and the commit
  succeeds, \<^verbatim>\<open>remove\<close> returns OK with the updated revision, and its calls are: the
  validity update with the parse of the text it has just formatted, the
  finalization at the formatted transaction timestamp with the task, the reset if
  requested, and the commit.
\<close>

lemma remove_committed:
  assumes "db_Begin W = None" and "db_CfgLoadActive W = Row c" and "Data c = d # ds"
    and "db_SetDataValidity W = Inr (1, None)"
    and "db_ProvFinalize W = Inr (1, None)"
    and "ResetActivation (q_Flags q) \<longrightarrow>
           db_ActivationDel W = Inr (0, None) \<or> db_ActivationDel W = Inr (1, None)"
    and "db_Commit W = None"
    and "vu = (if \<not> Equal (PosTimeInf L) (ParseValidity L (ValidUntil (Info d)))
               then ParseValidity L (ValidUntil (Info d))
               else if ConfigurationTask q = TaskDelete then UTC (now W)
                    else Add (UTC (now W)) (15 * Minute))"
    and "ts = (if Before (ParseProvision L (DeprovisionedAt (Info d))) (UTC (now W))
               then ParseProvision L (DeprovisionedAt (Info d)) else UTC (now W))"
    and "task = (if ConfigurationTask q = TaskDelete then TaskDelete
                 else if AlarmClearing (q_Flags q) then TaskClearing else TaskDeprovision)"
  shows "remove W L q mr =
     Inr \<lparr>mr_out = OK (mr\<lparr>Configuration := Configuration mr @
              [c\<lparr>Data := d\<lparr>Info := (Info d)
                  \<lparr>ValidUntil := FormatValidity L vu,
                   DeprovisionedAt := FormatProvision L ts\<rparr>\<rparr> # ds\<rparr>]\<rparr>),
          calls =
            [Begin, TxCfgLoadActive q,
             TxSetDataValidity (ParseValidity L (ValidFrom (Info d)))
               (ParseValidity L (FormatValidity L vu)) (Data_ID d),
             ProvFinalize (Data_ID d) (FormatRFC3339Milli L ts) task]
            @ (if ResetActivation (q_Flags q) then [ActivationDel (ID (q_Configuration q))] else [])
            @ [Commit]\<rparr>"
proof -
  have task: "task = (if (if ConfigurationTask q = TaskDelete then TaskDelete else TaskDeprovision)
                           = TaskDeprovision \<and> AlarmClearing (q_Flags q)
                      then TaskClearing
                      else (if ConfigurationTask q = TaskDelete then TaskDelete else TaskDeprovision))"
    using assms(10) by (simp add: TaskDelete_def TaskDeprovision_def)
  show ?thesis
  proof (cases "ResetActivation (q_Flags q)")
    case True
    with assms(6) have "db_ActivationDel W = Inr (0, None) \<or> db_ActivationDel W = Inr (1, None)"
      by simp
    then show ?thesis
      using True assms(1-5) assms(7)
      unfolding assms(8) assms(9) task
      by (auto simp: remove_def remove_finalize_def Let_def txSetDataValidity_def
          ExpectedRows_def commitTx_def split del: if_split)
  next
    case False
    then show ?thesis
      using assms(1-5) assms(7)
      unfolding assms(8) assms(9) task
      by (simp add: remove_def remove_finalize_def Let_def txSetDataValidity_def
          ExpectedRows_def commitTx_def split del: if_split)
  qed
qed




text \<open>
  Claim C5, as amended. For every remove request on a configuration with an active
  revision whose transaction succeeds, at transaction time \<open>T\<close> (the clock in UTC)
  with \<open>T\<close> plus 15 minutes not after positive infinity: let \<open>vu\<close> be the pre-call
  \<^verbatim>\<open>ValidUntil\<close> if that is not positive infinity, and otherwise \<open>T\<close> for a
  \<^verbatim>\<open>TaskDelete\<close> request and \<open>T\<close> plus 15 minutes for any other; let \<open>ts\<close> be the
  earlier of \<open>T\<close> and the pre-call \<^verbatim>\<open>DeprovisionedAt\<close>. The new \<^verbatim>\<open>ValidUntil\<close> is the
  formatting of \<open>vu\<close> in the returned revision and the parse of that text in the
  database; the new \<^verbatim>\<open>DeprovisionedAt\<close> is the formatting of \<open>ts\<close>, and the
  provisioning record is finalized at \<open>ts\<close>. The instant \<open>vu\<close> is at most the pre-call
  \<^verbatim>\<open>ValidUntil\<close> and at least the minimum of \<open>T\<close> and the pre-call \<^verbatim>\<open>ValidUntil\<close>; the
  instant \<open>ts\<close> is at most \<open>T\<close> and at most the pre-call \<^verbatim>\<open>DeprovisionedAt\<close>. What is
  read back from a formatted text is the instant only up to the precision of the
  format, so the bounds are bounds on \<open>vu\<close> and \<open>ts\<close>, not on the texts.
\<close>

theorem remove_monotone:
  assumes "db_Begin W = None" and "db_CfgLoadActive W = Row c" and "Data c = d # ds"
    and "db_SetDataValidity W = Inr (1, None)"
    and "db_ProvFinalize W = Inr (1, None)"
    and "ResetActivation (q_Flags q) \<longrightarrow>
           db_ActivationDel W = Inr (0, None) \<or> db_ActivationDel W = Inr (1, None)"
    and "db_Commit W = None"
    and "nanos (now W) + 15 * Minute \<le> nanos (PosTimeInf L)"
    and "vu = (if \<not> Equal (PosTimeInf L) (ParseValidity L (ValidUntil (Info d)))
               then ParseValidity L (ValidUntil (Info d))
               else if ConfigurationTask q = TaskDelete then UTC (now W)
                    else Add (UTC (now W)) (15 * Minute))"
    and "ts = (if Before (ParseProvision L (DeprovisionedAt (Info d))) (UTC (now W))
               then ParseProvision L (DeprovisionedAt (Info d)) else UTC (now W))"
    and "task = (if ConfigurationTask q = TaskDelete then TaskDelete
                 else if AlarmClearing (q_Flags q) then TaskClearing else TaskDeprovision)"
  shows "remove W L q mr =
     Inr \<lparr>mr_out = OK (mr\<lparr>Configuration := Configuration mr @
              [c\<lparr>Data := d\<lparr>Info := (Info d)
                  \<lparr>ValidUntil := FormatValidity L vu,
                   DeprovisionedAt := FormatProvision L ts\<rparr>\<rparr> # ds\<rparr>]\<rparr>),
          calls =
            [Begin, TxCfgLoadActive q,
             TxSetDataValidity (ParseValidity L (ValidFrom (Info d)))
               (ParseValidity L (FormatValidity L vu)) (Data_ID d),
             ProvFinalize (Data_ID d) (FormatRFC3339Milli L ts) task]
            @ (if ResetActivation (q_Flags q) then [ActivationDel (ID (q_Configuration q))] else [])
            @ [Commit]\<rparr>
     \<and> nanos vu \<le> nanos (ParseValidity L (ValidUntil (Info d)))
     \<and> min (nanos (UTC (now W))) (nanos (ParseValidity L (ValidUntil (Info d)))) \<le> nanos vu
     \<and> nanos ts \<le> nanos (UTC (now W))
     \<and> nanos ts \<le> nanos (ParseProvision L (DeprovisionedAt (Info d)))
     \<and> nanos ts = min (nanos (UTC (now W))) (nanos (ParseProvision L (DeprovisionedAt (Info d))))"
proof -
  have run: "remove W L q mr =
     Inr \<lparr>mr_out = OK (mr\<lparr>Configuration := Configuration mr @
              [c\<lparr>Data := d\<lparr>Info := (Info d)
                  \<lparr>ValidUntil := FormatValidity L vu,
                   DeprovisionedAt := FormatProvision L ts\<rparr>\<rparr> # ds\<rparr>]\<rparr>),
          calls =
            [Begin, TxCfgLoadActive q,
             TxSetDataValidity (ParseValidity L (ValidFrom (Info d)))
               (ParseValidity L (FormatValidity L vu)) (Data_ID d),
             ProvFinalize (Data_ID d) (FormatRFC3339Milli L ts) task]
            @ (if ResetActivation (q_Flags q) then [ActivationDel (ID (q_Configuration q))] else [])
            @ [Commit]\<rparr>"
    by (rule remove_committed [OF assms(1-7) assms(9-11)])
  have vu1: "nanos vu \<le> nanos (ParseValidity L (ValidUntil (Info d)))"
    using assms(8) Minute_nonneg unfolding assms(9)
    by (auto simp: Equal_def UTC_def Add_def)
  have vu2: "min (nanos (UTC (now W))) (nanos (ParseValidity L (ValidUntil (Info d)))) \<le> nanos vu"
    using Minute_nonneg unfolding assms(9)
    by (auto simp: Equal_def UTC_def Add_def)
  have ts: "nanos ts = min (nanos (UTC (now W))) (nanos (ParseProvision L (DeprovisionedAt (Info d))))"
    unfolding assms(10) by (auto simp: Before_def)
  have ts1: "nanos ts \<le> nanos (UTC (now W))"
    and ts2: "nanos ts \<le> nanos (ParseProvision L (DeprovisionedAt (Info d)))"
    using ts by simp_all
  from run vu1 vu2 ts1 ts2 ts show ?thesis
    by blast
qed

theorem remove_monotone_witness:
  "db_CfgLoadActive future_dated_world = Row future_dated_configuration
   \<and> nanos (now future_dated_world) + 15 * Minute \<le> nanos (PosTimeInf sample_timelib)
   \<and> returned_Info (remove future_dated_world sample_timelib (sample_request ActionRemove)
         (sample_FromRequest (sample_request ActionRemove))) =
       [[\<lparr>ValidFrom = ''2018-01-01T00:00:00.000Z'', ValidUntil = ''2018-06-01T12:15:00.000Z'',
          ProvisionedAt = ''2018-01-01T00:00:00.000Z'',
          DeprovisionedAt = ''2018-06-01T12:00:00.000Z'', Tasks = [''rollout'']\<rparr>]]
   \<and> calls_of (remove future_dated_world sample_timelib (sample_request ActionRemove)
         (sample_FromRequest (sample_request ActionRemove))) =
       [Begin, TxCfgLoadActive (sample_request ActionRemove),
        TxSetDataValidity \<lparr>nanos = 1514764800000000000, zone_offset = 0\<rparr>
          \<lparr>nanos = 1527855300000000000, zone_offset = 0\<rparr> ''d1'',
        ProvFinalize ''d1'' ''2018-06-01T12:00:00.000Z'' ''deprovision'',
        Commit]"
proof -
  let ?d = "\<lparr>Data_ID = ''d1'',
               Info = \<lparr>ValidFrom = ''2018-01-01T00:00:00.000Z'', ValidUntil = ''infinity'',
                       ProvisionedAt = ''2018-01-01T00:00:00.000Z'',
                       DeprovisionedAt = ''2030-01-01T00:00:00.000Z'',
                       Tasks = [''rollout'']\<rparr>,
               Payload = ''thresholds''\<rparr>"
  let ?T = "\<lparr>nanos = 1527854400000000000, zone_offset = 0\<rparr>"
  let ?vu = "\<lparr>nanos = 1527855300000000000, zone_offset = 0\<rparr>"
  have h1: "db_Begin future_dated_world = None"
    by (simp add: future_dated_world_def sample_world_def)
  have h2: "db_CfgLoadActive future_dated_world = Row future_dated_configuration"
    by (simp add: future_dated_world_def)
  have h3: "Data future_dated_configuration = ?d # []"
    by (simp add: future_dated_configuration_def)
  have h4: "db_SetDataValidity future_dated_world = Inr (1, None)"
    by (simp add: future_dated_world_def sample_world_def)
  have h5: "db_ProvFinalize future_dated_world = Inr (1, None)"
    by (simp add: future_dated_world_def sample_world_def)
  have h6: "ResetActivation (q_Flags (sample_request ActionRemove)) \<longrightarrow>
        db_ActivationDel future_dated_world = Inr (0, None)
        \<or> db_ActivationDel future_dated_world = Inr (1, None)"
    by (simp add: future_dated_world_def sample_world_def)
  have h7: "db_Commit future_dated_world = None"
    by (simp add: future_dated_world_def sample_world_def)
  have h8: "nanos (now future_dated_world) + 15 * Minute \<le> nanos (PosTimeInf sample_timelib)"
    by (simp add: future_dated_world_def sample_world_def sample_timelib_def
        sample_PosTimeInf_def Minute_def)
  have now: "UTC (now future_dated_world) = ?T"
    by (simp add: future_dated_world_def sample_world_def UTC_def)
  have vu: "?vu =
      (if \<not> Equal (PosTimeInf sample_timelib) (ParseValidity sample_timelib (ValidUntil (Info ?d)))
       then ParseValidity sample_timelib (ValidUntil (Info ?d))
       else if ConfigurationTask (sample_request ActionRemove) = TaskDelete
            then UTC (now future_dated_world)
            else Add (UTC (now future_dated_world)) (15 * Minute))"
    by (simp add: now sample_timelib_def Equal_def sample_request_def TaskDelete_def
        TaskDeprovision_def Add_def Minute_def)
  have ts: "?T =
      (if Before (ParseProvision sample_timelib (DeprovisionedAt (Info ?d)))
            (UTC (now future_dated_world))
       then ParseProvision sample_timelib (DeprovisionedAt (Info ?d))
       else UTC (now future_dated_world))"
    by (simp add: now sample_timelib_def parse_future Before_def)
  have task: "TaskDeprovision =
      (if ConfigurationTask (sample_request ActionRemove) = TaskDelete then TaskDelete
       else if AlarmClearing (q_Flags (sample_request ActionRemove)) then TaskClearing
            else TaskDeprovision)"
    by (simp add: sample_request_def sample_flags_def TaskDelete_def TaskDeprovision_def)
  have fv: "FormatValidity sample_timelib ?vu = ''2018-06-01T12:15:00.000Z''"
    by (simp add: sample_timelib_def sample_PosTimeInf_def Equal_def fmt_grace)
  have pv: "ParseValidity sample_timelib ''2018-06-01T12:15:00.000Z'' = ?vu"
    by (simp add: sample_timelib_def parse_grace)
  have pf: "ParseValidity sample_timelib ''2018-01-01T00:00:00.000Z''
      = \<lparr>nanos = 1514764800000000000, zone_offset = 0\<rparr>"
    by (simp add: sample_timelib_def parse_valid_from)
  have fp: "FormatProvision sample_timelib ?T = ''2018-06-01T12:00:00.000Z''"
    by (simp add: sample_timelib_def sample_NegTimeInf_def Equal_def fmt_now)
  have fr: "FormatRFC3339Milli sample_timelib ?T = ''2018-06-01T12:00:00.000Z''"
    by (simp add: sample_timelib_def fmt_now)
  have fl: "\<not> ResetActivation (q_Flags (sample_request ActionRemove))"
    by (simp add: sample_request_def sample_flags_def)
  from remove_monotone [OF h1 h2 h3 h4 h5 h6 h7 h8 vu ts task,
      of "sample_FromRequest (sample_request ActionRemove)"]
  have "returned_Info (remove future_dated_world sample_timelib (sample_request ActionRemove)
         (sample_FromRequest (sample_request ActionRemove))) =
       [[\<lparr>ValidFrom = ''2018-01-01T00:00:00.000Z'', ValidUntil = ''2018-06-01T12:15:00.000Z'',
          ProvisionedAt = ''2018-01-01T00:00:00.000Z'',
          DeprovisionedAt = ''2018-06-01T12:00:00.000Z'', Tasks = [''rollout'']\<rparr>]]
      \<and> calls_of (remove future_dated_world sample_timelib (sample_request ActionRemove)
         (sample_FromRequest (sample_request ActionRemove))) =
       [Begin, TxCfgLoadActive (sample_request ActionRemove),
        TxSetDataValidity \<lparr>nanos = 1514764800000000000, zone_offset = 0\<rparr>
          \<lparr>nanos = 1527855300000000000, zone_offset = 0\<rparr> ''d1'',
        ProvFinalize ''d1'' ''2018-06-01T12:00:00.000Z'' ''deprovision'',
        Commit]"
    by (simp add: returned_Info_def calls_of_def OK_def sample_FromRequest_def fv pv pf fp fr fl
        TaskDeprovision_def)
  with h2 h8 show ?thesis
    by simp
qed

text \<open>
  Claim C5 as stated fails twice. First, a revision whose \<^verbatim>\<open>DeprovisionedAt\<close> is after
  the transaction time gets the transaction time, which is earlier than the
  pre-call value. Second, a \<^verbatim>\<open>TaskDelete\<close> request at a clock reading that is not a
  whole millisecond, on a revision valid until \<^verbatim>\<open>infinity\<close>: the new \<^verbatim>\<open>ValidUntil\<close>
  is the transaction time cut to the millisecond, in the returned revision and in
  the database, and that is before \<open>T\<close>, the minimum of \<open>T\<close> and the original
  \<^verbatim>\<open>ValidUntil\<close>.
\<close>

theorem remove_monotone_counterexample:
  "db_CfgLoadActive future_dated_world = Row future_dated_configuration
   \<and> map (map DeprovisionedAt) (returned_Info (remove future_dated_world sample_timelib
       (sample_request ActionRemove) (sample_FromRequest (sample_request ActionRemove)))) =
     [[''2018-06-01T12:00:00.000Z'']]
   \<and> nanos (ParseProvision sample_timelib ''2018-06-01T12:00:00.000Z'')
       < nanos (ParseProvision sample_timelib ''2030-01-01T00:00:00.000Z'')
   \<and> ConfigurationTask delete_request = TaskDelete
   \<and> db_CfgLoadActive sub_millisecond_world = Row sample_configuration
   \<and> map (map ValidUntil) (returned_Info (remove sub_millisecond_world sample_timelib
       delete_request (sample_FromRequest delete_request))) =
     [[''2018-06-01T12:00:00.000Z'']]
   \<and> calls_of (remove sub_millisecond_world sample_timelib
       delete_request (sample_FromRequest delete_request)) =
     [Begin, TxCfgLoadActive delete_request,
      TxSetDataValidity \<lparr>nanos = 1514764800000000000, zone_offset = 0\<rparr>
        \<lparr>nanos = 1527854400000000000, zone_offset = 0\<rparr> ''d1'',
      ProvFinalize ''d1'' ''0001-01-01T00:00:00.000Z'' ''delete'',
      Commit]
   \<and> nanos (ParseValidity sample_timelib ''2018-06-01T12:00:00.000Z'')
       < min (nanos (UTC (now sub_millisecond_world)))
             (nanos (ParseValidity sample_timelib ''infinity''))"
  by (simp add: future_dated_world_def future_dated_configuration_def sub_millisecond_world_def
      delete_request_def fixture_defs msg_defs Time_defs Minute_def
      remove_def remove_finalize_def txSetDataValidity_def commitTx_def Let_def
      returned_Info_def calls_of_def stamp_simps)


subsection \<open>update\<close>

text \<open>
  Claim C6, as amended. Once the update statement has run and reported \<open>N\<close> affected
  rows: for \<open>N\<close> different from 1 the handler returns a server error with the message
  \<^verbatim>\<open>Rollback: update statement affected N rows\<close> and rolls the transaction back; for
  \<open>N\<close> equal to 1 it commits, and returns OK if the commit succeeds and a server error
  with the error of the commit otherwise. The handler returns OK if and only if the
  statement affects exactly 1 row and the commit succeeds.
\<close>

theorem update_outcome:
  assumes "MarshalConfiguration W (q_Configuration q) = Inr jsonb"
    and "db_Begin W = None"
    and "db_ConfigurationUpdate W = Inr (N, e)"
  shows "(N \<noteq> 1 \<longrightarrow>
            update W q mr =
              Inr \<lparr>mr_out = ServerError
                     (''Rollback: update statement affected '' @ show_int N @ '' rows'') mr,
                   calls = [Begin,
                            ConfigurationUpdate (ID (q_Configuration q)) (LookupHash q) jsonb,
                            Rollback]\<rparr>)
         \<and> (N = 1 \<longrightarrow>
            update W q mr =
              Inr \<lparr>mr_out = (case db_Commit W of None \<Rightarrow> OK mr | Some err \<Rightarrow> ServerError err mr),
                   calls = [Begin,
                            ConfigurationUpdate (ID (q_Configuration q)) (LookupHash q) jsonb,
                            Commit]\<rparr>)
         \<and> ((\<exists>h. update W q mr = Inr h \<and> Code (mr_out h) = ResultOK)
              \<longleftrightarrow> N = 1 \<and> db_Commit W = None)"
  using assms
  by (cases "db_Commit W")
     (auto simp: update_def Let_def OK_def ServerError_def ResultOK_def ResultServerError_def)

theorem update_outcome_witness:
  "MarshalConfiguration three_rows_updated (q_Configuration (sample_request ActionUpdate))
     = Inr ''configuration c1''
   \<and> db_Begin three_rows_updated = None
   \<and> db_ConfigurationUpdate three_rows_updated = Inr (3, None)
   \<and> update three_rows_updated (sample_request ActionUpdate)
        (sample_FromRequest (sample_request ActionUpdate)) =
       Inr \<lparr>mr_out = ServerError ''Rollback: update statement affected 3 rows''
                        (sample_FromRequest (sample_request ActionUpdate)),
            calls = [Begin, ConfigurationUpdate ''c1'' ''l1'' ''configuration c1'', Rollback]\<rparr>"
proof -
  have h1: "MarshalConfiguration three_rows_updated (q_Configuration (sample_request ActionUpdate))
     = Inr ''configuration c1''"
    by (simp add: three_rows_updated_def sample_world_def sample_request_def sample_configuration_def)
  have h2: "db_Begin three_rows_updated = None"
    by (simp add: three_rows_updated_def sample_world_def)
  have h3: "db_ConfigurationUpdate three_rows_updated = Inr (3, None)"
    by (simp add: three_rows_updated_def)
  have q: "ID (q_Configuration (sample_request ActionUpdate)) = ''c1''"
      "LookupHash (sample_request ActionUpdate) = ''l1''"
    by (simp_all add: sample_request_def sample_configuration_def)
  from update_outcome [OF h1 h2 h3, of "sample_FromRequest (sample_request ActionUpdate)"]
    h1 h2 h3 q show_int_3
  show ?thesis
    by simp
qed

text \<open>
  Claim C6 as stated (success if and only if exactly 1 row is affected) fails when
  the commit fails: the statement affects 1 row and the handler returns a server
  error.
\<close>

theorem update_commit_counterexample:
  "db_ConfigurationUpdate commit_fails = Inr (1, None)
   \<and> update commit_fails (sample_request ActionUpdate)
        (sample_FromRequest (sample_request ActionUpdate)) =
       Inr \<lparr>mr_out = ServerError ''pq: could not serialize access''
                        (sample_FromRequest (sample_request ActionUpdate)),
            calls = [Begin, ConfigurationUpdate ''c1'' ''l1'' ''configuration c1'', Commit]\<rparr>
   \<and> Code (ServerError ''pq: could not serialize access''
              (sample_FromRequest (sample_request ActionUpdate))) \<noteq> ResultOK"
  by (simp add: commit_fails_def sample_world_def sample_request_def sample_configuration_def
      update_def Let_def ServerError_def ResultServerError_def ResultOK_def)

subsection \<open>process\<close>

lemma update_returns: "\<exists>h. update W q mr = Inr h"
  by (simp add: update_def Let_def split: sum.split option.split prod.split)

lemma activate_returns: "\<exists>h. activate W q mr = Inr h"
  by (simp add: activate_def Let_def split: sum.split)

text \<open>
  Claim C7, as amended. For every request whose handler does not panic, exactly one
  result is sent on the reply channel, on success and on every error return alike:
  this covers every Update, Activate, Nop and unknown request, every Add request
  that carries at least one \<^verbatim>\<open>Data\<close> element and gets its UUID, and every Remove
  request for which the loaded configuration has at least one revision. A request
  whose action is none of Add, Remove, Update, Activate and Nop is answered with the
  \<^verbatim>\<open>UnknownRequest\<close> result.
\<close>

theorem process_replies_once:
  assumes "q_Action q = ActionAdd \<longrightarrow> (\<exists>u. NewV4 W = Inr u) \<and> Data (q_Configuration q) \<noteq> []"
    and "q_Action q = ActionRemove \<longrightarrow>
           (\<forall>c. db_Begin W = None \<and> db_CfgLoadActive W = Row c \<longrightarrow> Data c \<noteq> [])"
  shows "(\<exists>p. process W L q = Inr p \<and> length (Reply p) = 1)
         \<and> (q_Action q \<notin> {ActionAdd, ActionRemove, ActionUpdate, ActionActivate, ActionNop} \<longrightarrow>
              replies (process W L q) = [UnknownRequest q (FromRequest W q)])"
proof (cases "q_Action q")
  case ActionAdd
  with assms(1) obtain u d ds where "NewV4 W = Inr u" "Data (q_Configuration q) = d # ds"
    by (cases "Data (q_Configuration q)") auto
  then obtain h where "add W L q (FromRequest W q) = Inr h"
    using add_returns by blast
  with ActionAdd show ?thesis
    by (simp add: process_def and_then_def)
next
  case ActionRemove
  with assms(2) have "\<And>c. db_Begin W = None \<Longrightarrow> db_CfgLoadActive W = Row c \<Longrightarrow> Data c \<noteq> []"
    by blast
  then obtain h where "remove W L q (FromRequest W q) = Inr h"
    using remove_returns by blast
  with ActionRemove show ?thesis
    by (simp add: process_def and_then_def)
next
  case ActionUpdate
  obtain h where "update W q (FromRequest W q) = Inr h"
    using update_returns by blast
  with ActionUpdate show ?thesis
    by (simp add: process_def and_then_def)
next
  case ActionActivate
  obtain h where "activate W q (FromRequest W q) = Inr h"
    using activate_returns by blast
  with ActionActivate show ?thesis
    by (simp add: process_def and_then_def)
next
  case ActionNop
  then show ?thesis
    by (simp add: process_def and_then_def)
next
  case ActionList
  then show ?thesis
    by (simp add: process_def and_then_def replies_def)
next
  case (ActionOther x)
  then show ?thesis
    by (simp add: process_def and_then_def replies_def)
qed

theorem process_replies_once_witness:
  "q_Action (sample_request ActionList) \<noteq> ActionAdd
   \<and> q_Action (sample_request ActionList) \<noteq> ActionRemove
   \<and> replies (process sample_world sample_timelib (sample_request ActionList)) =
       [UnknownRequest (sample_request ActionList) (sample_FromRequest (sample_request ActionList))]"
proof -
  have a: "q_Action (sample_request ActionList) = ActionList"
    by (simp add: sample_request_def)
  have h1: "q_Action (sample_request ActionList) = ActionAdd \<longrightarrow>
      (\<exists>u. NewV4 sample_world = Inr u) \<and> Data (q_Configuration (sample_request ActionList)) \<noteq> []"
    using a by simp
  have h2: "q_Action (sample_request ActionList) = ActionRemove \<longrightarrow>
      (\<forall>c. db_Begin sample_world = None \<and> db_CfgLoadActive sample_world = Row c \<longrightarrow> Data c \<noteq> [])"
    using a by simp
  have f: "FromRequest sample_world = sample_FromRequest"
    by (simp add: sample_world_def)
  from process_replies_once [OF h1 h2, of sample_timelib] a f show ?thesis
    by simp
qed

text \<open>
  Claim C7 as stated (every request) fails for an Add request with an empty \<^verbatim>\<open>Data\<close>
  list: the handler panics and nothing is sent on the reply channel.
\<close>

theorem process_no_reply_counterexample:
  "q_Action empty_add_request = ActionAdd
   \<and> process sample_world sample_timelib empty_add_request = Inl (IndexOutOfRange, [])
   \<and> replies (process sample_world sample_timelib empty_add_request) = []"
  by (simp add: empty_add_request_def sample_request_def sample_world_def process_def and_then_def
      add_def replies_def)

end
